theory Spec2Isabelle
  imports Main "HOL-Library.AList"
begin

section \<open>Security types (src/types/security.ts)\<close>

text \<open>
  \<^verbatim>\<open>PermissionAction\<close> and \<^verbatim>\<open>PermissionScope\<close> are unions of string literals; each
  becomes a datatype with one constructor per literal. \<open>action_string\<close> and
  \<open>scope_string\<close> give the literal a constructor stands for, which is what the
  run-time code compares and interpolates.
\<close>

datatype PermissionAction = Create | Read | Update | Delete | Execute | Configure

datatype PermissionScope = Own | Project | Global

fun action_string :: "PermissionAction \<Rightarrow> string" where
  "action_string Create = ''create''"
| "action_string Read = ''read''"
| "action_string Update = ''update''"
| "action_string Delete = ''delete''"
| "action_string Execute = ''execute''"
| "action_string Configure = ''configure''"

fun scope_string :: "PermissionScope \<Rightarrow> string" where
  "scope_string Own = ''own''"
| "scope_string Project = ''project''"
| "scope_string Global = ''global''"

text \<open>
  \<^verbatim>\<open>interface Permission { resource; action; scope? }\<close>. The optional \<open>scope\<close> is an
  option: \<open>None\<close> is the omitted (undefined) scope. \<^verbatim>\<open>Omit<Permission, 'scope'>\<close>, the
  parameter type of \<open>filterByPermissions\<close>, is the parent record.
\<close>

record PermissionWithoutScope =
  resource :: string
  action :: PermissionAction

record Permission = PermissionWithoutScope +
  scope :: "PermissionScope option"

text \<open>
  \<^verbatim>\<open>interface User { id; email; permissions; isActive; lastLogin? }\<close>. The field
  \<open>id\<close> is written \<open>id'\<close> (the name \<open>id\<close> is HOL's identity function); a
  \<^verbatim>\<open>Date\<close> is its number of milliseconds since the epoch.
\<close>

record User =
  id' :: string
  email :: string
  permissions :: "Permission list"
  isActive :: bool
  lastLogin :: "int option"

section \<open>Untrusted data\<close>

text \<open>
  Data of type \<^verbatim>\<open>unknown\<close>: the JavaScript values that reach the validation service.
  Numbers are kept as integers plus \<open>NaN\<close> (the code never computes with them; only
  their truthiness is read), a \<^verbatim>\<open>Date\<close> is its epoch milliseconds, and a plain object
  is the list of its own enumerable properties in enumeration order.
\<close>

datatype jsvalue =
    JUndefined
  | JNull
  | JBool bool
  | JNum int
  | JNaN
  | JStr string
  | JDate int
  | JArr "jsvalue list"
  | JObj "(string \<times> jsvalue) list"

text \<open>The \<^verbatim>\<open>typeof\<close> operator.\<close>

fun typeof :: "jsvalue \<Rightarrow> string" where
  "typeof JUndefined = ''undefined''"
| "typeof JNull = ''object''"
| "typeof (JBool _) = ''boolean''"
| "typeof (JNum _) = ''number''"
| "typeof JNaN = ''number''"
| "typeof (JStr _) = ''string''"
| "typeof (JDate _) = ''object''"
| "typeof (JArr _) = ''object''"
| "typeof (JObj _) = ''object''"

text \<open>Truthiness, as \<^verbatim>\<open>if (data && ...)\<close> reads it.\<close>

fun truthy :: "jsvalue \<Rightarrow> bool" where
  "truthy JUndefined = False"
| "truthy JNull = False"
| "truthy (JBool b) = b"
| "truthy (JNum n) = (n \<noteq> 0)"
| "truthy JNaN = False"
| "truthy (JStr s) = (s \<noteq> [])"
| "truthy (JDate _) = True"
| "truthy (JArr _) = True"
| "truthy (JObj _) = True"

text \<open>Decimal digits of an array index, the property name of an array element.\<close>

fun string_of_nat :: "nat \<Rightarrow> string" where
  "string_of_nat n =
     (if n < 10 then [char_of (48 + n)]
      else string_of_nat (n div 10) @ [char_of (48 + n mod 10)])"

declare string_of_nat.simps [simp del]

text \<open>
  The own enumerable properties of an object, which is what the spread \<^verbatim>\<open>{ ...obj }\<close>
  copies: the fields of a plain object, the elements of an array under their indices,
  nothing for a \<^verbatim>\<open>Date\<close>. (The spread is only reached for values whose \<^verbatim>\<open>typeof\<close>
  is \<^verbatim>\<open>'object'\<close>.)
\<close>

fun own_properties :: "jsvalue \<Rightarrow> (string \<times> jsvalue) list" where
  "own_properties (JObj props) = props"
| "own_properties (JArr xs) = zip (map string_of_nat [0..<length xs]) xs"
| "own_properties _ = []"

text \<open>
  \<open>field in objRecord\<close> and \<open>objRecord[field]\<close>, read from the own properties: none of
  the four field names is a property that \<open>Object\<close>, \<open>Array\<close> or \<open>Date\<close> objects
  inherit.
\<close>

definition has_property :: "(string \<times> jsvalue) list \<Rightarrow> string \<Rightarrow> bool" where
  "has_property props field = (map_of props field \<noteq> None)"

definition get_property :: "(string \<times> jsvalue) list \<Rightarrow> string \<Rightarrow> jsvalue" where
  "get_property props field = (case map_of props field of None \<Rightarrow> JUndefined | Some v \<Rightarrow> v)"

section \<open>Errors (src/types/security.ts)\<close>

datatype SecurityErrorCode =
    PERMISSION_DENIED
  | INVALID_INPUT
  | SANDBOX_VIOLATION
  | AUTHENTICATION_REQUIRED
  | RATE_LIMIT_EXCEEDED

text \<open>
  One issue of a \<^verbatim>\<open>ZodError\<close>: its code, the path to the offending field (object
  keys and array indices) and its message.
\<close>

datatype path_segment = Key string | Index nat

datatype ZodIssue = ZodIssue (issue_code: string) (issue_path: "path_segment list")
  (issue_message: string)

text \<open>
  \<open>details?: Record<string, unknown>\<close>: one constructor per object literal the code
  passes as details.
  \<^item> \<open>RequireDetails userId requiredPermission resource\<close> (requirePermission);
  \<^item> \<open>GateDetails requiredPermissions userId\<close> (SecureComponent, useSecureData);
  \<^item> \<open>ValidationDetails issues received\<close> (validate);
  \<^item> \<open>SanitizeDetails content\<close> (sanitizeHtml).
\<close>

datatype ErrorDetails =
    RequireDetails string Permission "string option"
  | GateDetails "Permission list" string
  | ValidationDetails "ZodIssue list" jsvalue
  | SanitizeDetails string

record SecurityError =
  message :: string
  code :: SecurityErrorCode
  details :: "ErrorDetails option"

text \<open>
  What a \<^verbatim>\<open>throw\<close> (or a rejected promise) carries: a \<open>SecurityError\<close>, or any other
  error, kept as its message.
\<close>

datatype thrown = SecurityErr SecurityError | OtherError string

section \<open>Permission service (src/services/PermissionService.ts)\<close>

text \<open>
  \<open>scopeMatches(userScope?: string, requiredScope?: string)\<close>. The parameters are
  optional strings; \<open>!s\<close> holds of \<open>undefined\<close> and of the empty string.
\<close>

definition not_string :: "string option \<Rightarrow> bool" where
  "not_string s = (s = None \<or> s = Some [])"

definition scopeMatches :: "string option \<Rightarrow> string option \<Rightarrow> bool" where
  "scopeMatches userScope requiredScope =
     (if not_string userScope \<and> not_string requiredScope then True
      else if userScope = Some ''global'' then True
      else if userScope = Some ''project'' \<and>
              (requiredScope = Some ''project'' \<or> requiredScope = Some ''own'') then True
      else if userScope = Some ''own'' \<and> requiredScope = Some ''own'' then True
      else userScope = requiredScope)"

definition permissionsMatch :: "Permission \<Rightarrow> Permission \<Rightarrow> bool" where
  "permissionsMatch userPermission requiredPermission =
     (if resource userPermission \<noteq> resource requiredPermission then False
      else if action userPermission \<noteq> action requiredPermission then False
      else scopeMatches (map_option scope_string (scope userPermission))
                        (map_option scope_string (scope requiredPermission)))"

definition hasPermission :: "User \<Rightarrow> Permission \<Rightarrow> bool" where
  "hasPermission user permission =
     (if \<not> isActive user then False
      else list_ex (\<lambda>userPermission. permissionsMatch userPermission permission)
             (permissions user))"

definition hasAnyPermission :: "User \<Rightarrow> Permission list \<Rightarrow> bool" where
  "hasAnyPermission user perms = list_ex (\<lambda>permission. hasPermission user permission) perms"

text \<open>
  \<open>filterByPermissions\<close>: the callback of \<open>items.filter\<close> takes no parameter; it
  builds the requirement at global, project and own scope in turn and returns at the
  first one the user has.
\<close>

definition filterByPermissions ::
    "User \<Rightarrow> 'a list \<Rightarrow> PermissionWithoutScope \<Rightarrow> 'a list" where
  "filterByPermissions user items requiredPermission =
     filter (\<lambda>_.
       let globalPermission = \<lparr>resource = resource requiredPermission,
             action = action requiredPermission, scope = Some Global\<rparr>
       in if hasPermission user globalPermission then True
          else
            let projectPermission = \<lparr>resource = resource requiredPermission,
                  action = action requiredPermission, scope = Some Project\<rparr>
            in if hasPermission user projectPermission then True
               else
                 let ownPermission = \<lparr>resource = resource requiredPermission,
                       action = action requiredPermission, scope = Some Own\<rparr>
                 in hasPermission user ownPermission)
       items"

definition requirePermission ::
    "User \<Rightarrow> Permission \<Rightarrow> string option \<Rightarrow> SecurityError + unit" where
  "requirePermission user permission res =
     (if \<not> hasPermission user permission then
        Inl \<lparr>message = ''Permission denied: '' @ action_string (action permission) @
                 '' on '' @ resource permission,
             code = PERMISSION_DENIED,
             details = Some (RequireDetails (id' user) permission res)\<rparr>
      else Inr ())"

definition getPermissionsForResource :: "User \<Rightarrow> string \<Rightarrow> Permission list" where
  "getPermissionsForResource user res =
     filter (\<lambda>permission. resource permission = res) (permissions user)"

definition isGlobalAdmin :: "User \<Rightarrow> bool" where
  "isGlobalAdmin user =
     hasPermission user \<lparr>resource = ''*'', action = Configure, scope = Some Global\<rparr>"

section \<open>Zod schemas (package zod; the declarations of src/types/security.ts)\<close>

text \<open>
  A \<^verbatim>\<open>z.ZodSchema<T>\<close> is used through \<open>schema.parse(data)\<close> only, which returns the
  parsed value, throws a \<open>ZodError\<close> with its issues, or throws something else (a
  refinement or transform of the schema may throw any value, a \<open>SecurityError\<close>
  included); a schema is the function from the data to that outcome.
\<close>

datatype parse_outcome = Parsed jsvalue | ZodError "ZodIssue list" | ParseThrows thrown

type_synonym ZodSchema = "jsvalue \<Rightarrow> parse_outcome"

text \<open>
  The schemas that security.ts declares are built from Zod's combinators. \<open>ZodType\<close> is
  the part of that schema language they use: \<open>z.string()\<close> with its checks
  (\<open>.min\<close>, \<open>.max\<close>, and the formats \<open>.uuid()\<close> and \<open>.email()\<close>, each a name and
  the test of its pattern), \<open>z.boolean()\<close>, \<open>z.date()\<close>, \<open>z.unknown()\<close>, \<open>z.enum\<close>,
  \<open>z.array\<close>, \<open>z.record(z.string(), _)\<close>, \<open>z.object\<close> and \<open>.optional()\<close>.
\<close>

datatype StringCheck = MinLength nat | MaxLength nat | Format string "string \<Rightarrow> bool"

datatype ZodType =
    ZString "StringCheck list"
  | ZBoolean
  | ZDate
  | ZUnknown
  | ZEnum "string list"
  | ZArray ZodType
  | ZRecord ZodType
  | ZObject "(string \<times> ZodType) list"
  | ZOptional ZodType

text \<open>
  Modelled from the spec: the parse function of a declared schema (package zod is not
  under src/). The spec has \<open>issues\<close> as ``the structured list of schema violations (path
  + message per offending field)'', and data missing a required field fail with issues
  that enumerate that field's path. The model follows Zod 3: every field of an object and
  every element of an array is parsed, whatever the others did, and the issues are
  collected in that order; the codes and messages are those of the default error map,
  which reports a value that is \<open>undefined\<close> where another type is expected as
  \<open>Required\<close>. \<open>parsedType\<close> is the name Zod gives the type of a received value.
\<close>

fun parsedType :: "jsvalue \<Rightarrow> string" where
  "parsedType JUndefined = ''undefined''"
| "parsedType JNull = ''null''"
| "parsedType (JBool _) = ''boolean''"
| "parsedType (JNum _) = ''number''"
| "parsedType JNaN = ''nan''"
| "parsedType (JStr _) = ''string''"
| "parsedType (JDate _) = ''date''"
| "parsedType (JArr _) = ''array''"
| "parsedType (JObj _) = ''object''"

definition invalid_type :: "path_segment list \<Rightarrow> string \<Rightarrow> jsvalue \<Rightarrow> ZodIssue" where
  "invalid_type path expected received =
     ZodIssue ''invalid_type'' path
       (if received = JUndefined then ''Required''
        else ''Expected '' @ expected @ '', received '' @ parsedType received)"

definition quoted :: "string \<Rightarrow> string" where
  "quoted s = [CHR 0x27] @ s @ [CHR 0x27]"

fun joinValues :: "string list \<Rightarrow> string" where
  "joinValues [] = []"
| "joinValues [v] = quoted v"
| "joinValues (v # vs) = quoted v @ '' | '' @ joinValues vs"

fun check_issues :: "path_segment list \<Rightarrow> string \<Rightarrow> StringCheck \<Rightarrow> ZodIssue list" where
  "check_issues path s (MinLength n) =
     (if length s < n
      then [ZodIssue ''too_small'' path
              (''String must contain at least '' @ string_of_nat n @ '' character(s)'')]
      else [])"
| "check_issues path s (MaxLength n) =
     (if length s > n
      then [ZodIssue ''too_big'' path
              (''String must contain at most '' @ string_of_nat n @ '' character(s)'')]
      else [])"
| "check_issues path s (Format name test) =
     (if test s then [] else [ZodIssue ''invalid_string'' path (''Invalid '' @ name)])"

fun zod_issues :: "ZodType \<Rightarrow> path_segment list \<Rightarrow> jsvalue \<Rightarrow> ZodIssue list"
  and zod_issues_shape ::
    "(string \<times> ZodType) list \<Rightarrow> path_segment list \<Rightarrow> (string \<times> jsvalue) list \<Rightarrow> ZodIssue list"
where
  "zod_issues (ZString checks) path v =
     (case v of
        JStr s \<Rightarrow> concat (map (check_issues path s) checks)
      | _ \<Rightarrow> [invalid_type path ''string'' v])"
| "zod_issues ZBoolean path v =
     (case v of JBool _ \<Rightarrow> [] | _ \<Rightarrow> [invalid_type path ''boolean'' v])"
| "zod_issues ZDate path v =
     (case v of JDate _ \<Rightarrow> [] | _ \<Rightarrow> [invalid_type path ''date'' v])"
| "zod_issues ZUnknown path v = []"
| "zod_issues (ZEnum values) path v =
     (case v of
        JStr s \<Rightarrow>
          if s \<in> set values then []
          else [ZodIssue ''invalid_enum_value'' path
                  (''Invalid enum value. Expected '' @ joinValues values @ '', received '' @
                   quoted s)]
      | _ \<Rightarrow> [invalid_type path (joinValues values) v])"
| "zod_issues (ZArray element) path v =
     (case v of
        JArr xs \<Rightarrow>
          concat (map (\<lambda>(i, x). zod_issues element (path @ [Index i]) x)
                    (zip [0..<length xs] xs))
      | _ \<Rightarrow> [invalid_type path ''array'' v])"
| "zod_issues (ZRecord valueType) path v =
     (case v of
        JObj props \<Rightarrow>
          concat (map (\<lambda>(k, x). zod_issues valueType (path @ [Key k]) x) props)
      | _ \<Rightarrow> [invalid_type path ''object'' v])"
| "zod_issues (ZObject shape) path v =
     (case v of
        JObj props \<Rightarrow> zod_issues_shape shape path props
      | _ \<Rightarrow> [invalid_type path ''object'' v])"
| "zod_issues (ZOptional inner) path v =
     (if v = JUndefined then [] else zod_issues inner path v)"
| "zod_issues_shape [] path props = []"
| "zod_issues_shape ((key, keyValidator) # shape) path props =
     zod_issues keyValidator (path @ [Key key]) (get_property props key) @
     zod_issues_shape shape path props"

text \<open>
  The value a successful parse returns: an object keeps the keys of its shape only, in
  the order of the shape (unknown keys are stripped), and a key that is absent from the
  data and parses to \<open>undefined\<close> stays absent.
\<close>

fun zod_output :: "ZodType \<Rightarrow> jsvalue \<Rightarrow> jsvalue"
  and zod_output_shape ::
    "(string \<times> ZodType) list \<Rightarrow> (string \<times> jsvalue) list \<Rightarrow> (string \<times> jsvalue) list"
where
  "zod_output (ZString checks) v = v"
| "zod_output ZBoolean v = v"
| "zod_output ZDate v = v"
| "zod_output ZUnknown v = v"
| "zod_output (ZEnum values) v = v"
| "zod_output (ZArray element) v =
     (case v of JArr xs \<Rightarrow> JArr (map (zod_output element) xs) | _ \<Rightarrow> v)"
| "zod_output (ZRecord valueType) v =
     (case v of
        JObj props \<Rightarrow> JObj (map (\<lambda>(k, x). (k, zod_output valueType x)) props)
      | _ \<Rightarrow> v)"
| "zod_output (ZObject shape) v =
     (case v of JObj props \<Rightarrow> JObj (zod_output_shape shape props) | _ \<Rightarrow> v)"
| "zod_output (ZOptional inner) v = (if v = JUndefined then JUndefined else zod_output inner v)"
| "zod_output_shape [] props = []"
| "zod_output_shape ((key, keyValidator) # shape) props =
     (let parsed = zod_output keyValidator (get_property props key)
      in if parsed \<noteq> JUndefined \<or> has_property props key
         then (key, parsed) # zod_output_shape shape props
         else zod_output_shape shape props)"

definition zod_parse :: "ZodType \<Rightarrow> ZodSchema" where
  "zod_parse schema data =
     (let issues = zod_issues schema [] data
      in if issues = [] then Parsed (zod_output schema data) else ZodError issues)"

text \<open>
  A field of an object schema is required when its schema does not accept
  \<open>undefined\<close>.
\<close>

fun accepts_undefined :: "ZodType \<Rightarrow> bool" where
  "accepts_undefined (ZOptional _) = True"
| "accepts_undefined ZUnknown = True"
| "accepts_undefined _ = False"

text \<open>
  \<open>PermissionSchema\<close>, \<open>UserSchema\<close> and \<open>DocumentContentSchema\<close> of security.ts.
  The tests of Zod's uuid and email patterns are parameters. (\<open>PluginConfigSchema\<close>,
  which checks numbers and a regular expression, is left out.)
\<close>

definition PermissionSchema :: ZodType where
  "PermissionSchema = ZObject
     [(''resource'', ZString [MinLength 1]),
      (''action'', ZEnum [''create'', ''read'', ''update'', ''delete'', ''execute'', ''configure'']),
      (''scope'', ZOptional (ZEnum [''own'', ''project'', ''global'']))]"

definition UserSchema :: "(string \<Rightarrow> bool) \<Rightarrow> (string \<Rightarrow> bool) \<Rightarrow> ZodType" where
  "UserSchema uuid email_test = ZObject
     [(''id'', ZString [Format ''uuid'' uuid]),
      (''email'', ZString [Format ''email'' email_test]),
      (''permissions'', ZArray (ZObject
         [(''resource'', ZString [MinLength 1]),
          (''action'',
             ZEnum [''create'', ''read'', ''update'', ''delete'', ''execute'', ''configure'']),
          (''scope'', ZOptional (ZEnum [''own'', ''project'', ''global'']))])),
      (''isActive'', ZBoolean),
      (''lastLogin'', ZOptional ZDate)]"

definition DocumentContentSchema :: "(string \<Rightarrow> bool) \<Rightarrow> ZodType" where
  "DocumentContentSchema uuid = ZObject
     [(''id'', ZString [Format ''uuid'' uuid]),
      (''title'', ZString [MinLength 1, MaxLength 255]),
      (''content'', ZString [MaxLength 10000000]),
      (''contentType'', ZEnum [''text'', ''markdown'', ''html'']),
      (''metadata'', ZOptional (ZRecord ZUnknown)),
      (''createdAt'', ZDate),
      (''updatedAt'', ZDate),
      (''authorId'', ZString [Format ''uuid'' uuid])]"

section \<open>DOMPurify (package dompurify) and its configuration\<close>

text \<open>
  The configuration object of \<open>sanitizeHtml\<close>. \<open>ALLOWED_URI_REGEXP\<close> is the test of the
  regular expression
  \<^verbatim>\<open>/^(?:(?:(?:f|ht)tps?|mailto|tel|callto|cid|xmpp|xxx):|[^a-z]|[a-z+.\-]+(?:[^a-z+.\-:]|$))/i\<close>:
  a string passes when it starts with one of the listed schemes and a colon, or with a
  character that is not a letter, or with a run of letters, \<open>+\<close>, \<open>.\<close> and \<open>-\<close> that
  ends the string or is followed by a character other than a colon. The flag \<open>i\<close> makes
  the test blind to case, so it runs on the lower-cased string.
\<close>

definition lower_char :: "char \<Rightarrow> char" where
  "lower_char c =
     (if (65::nat) \<le> of_char c \<and> of_char c \<le> (90::nat) then char_of (of_char c + (32::nat)) else c)"

definition lowercase :: "string \<Rightarrow> string" where
  "lowercase s = map lower_char s"

definition is_letter :: "char \<Rightarrow> bool" where
  "is_letter c = ((97::nat) \<le> of_char c \<and> of_char c \<le> (122::nat))"

definition scheme_char :: "char \<Rightarrow> bool" where
  "scheme_char c = (is_letter c \<or> c = CHR ''+'' \<or> c = CHR ''.'' \<or> c = CHR ''-'')"

definition allowed_uri_regexp :: "string \<Rightarrow> bool" where
  "allowed_uri_regexp s =
     (let v = lowercase s
      in list_ex (\<lambda>scheme. take (length scheme + 1) v = scheme @ '':'')
           [''ftp'', ''ftps'', ''http'', ''https'', ''mailto'', ''tel'', ''callto'', ''cid'',
            ''xmpp'', ''xxx''] \<or>
         (case v of [] \<Rightarrow> False | c # _ \<Rightarrow> \<not> is_letter c) \<or>
         (takeWhile scheme_char v \<noteq> [] \<and>
          (case dropWhile scheme_char v of [] \<Rightarrow> True | c # _ \<Rightarrow> c \<noteq> CHR '':'')))"

record SanitizeConfig =
  ALLOWED_TAGS :: "string list"
  ALLOWED_ATTR :: "string list"
  ALLOWED_URI_REGEXP :: "string \<Rightarrow> bool"
  ADD_ATTR :: "string list"
  FORBID_TAGS :: "string list"
  FORBID_ATTR :: "string list"

definition config :: SanitizeConfig where
  "config = \<lparr>
     ALLOWED_TAGS =
       [''p'', ''br'', ''strong'', ''em'', ''u'', ''h1'', ''h2'', ''h3'', ''h4'', ''h5'', ''h6'',
        ''ul'', ''ol'', ''li'', ''blockquote'', ''code'', ''pre'', ''a'', ''img'', ''table'',
        ''thead'', ''tbody'', ''tr'', ''th'', ''td'', ''div'', ''span'', ''hr''],
     ALLOWED_ATTR =
       [''href'', ''src'', ''alt'', ''title'', ''class'', ''id'', ''style'',
        ''target'', ''rel'', ''width'', ''height''],
     ALLOWED_URI_REGEXP = allowed_uri_regexp,
     ADD_ATTR = [''target''],
     FORBID_TAGS = [''script'', ''object'', ''embed'', ''form'', ''input'', ''button''],
     FORBID_ATTR = [''onclick'', ''onerror'', ''onload'', ''onmouseover'']\<rparr>"

text \<open>
  The nodes of the document the browser's HTML parser builds from a string: an element
  with its tag name, its attributes (name and value) and its children, a text node, or a
  comment.
\<close>

datatype node =
    Element string "(string \<times> string) list" "node list"
  | Text string
  | Comment string

text \<open>
  Modelled from the spec: \<open>DOMPurify.sanitize\<close> (package dompurify is not under src/).
  The spec has it apply ``an allow-list of markup tags and attributes'', forbid the
  listed elements and ``all inline event-handler attributes'', and restrict \<open>href\<close> and
  \<open>src\<close> to the schemes of the URI allow-list; a \<open>script\<close> element goes with its
  content. DOMPurify parses the string with the browser's parser, walks the nodes, and
  returns the serialized result:
  \<^item> an element stays when its tag is in \<open>ALLOWED_TAGS\<close> and not in \<open>FORBID_TAGS\<close>; an
    element that goes leaves its children in its place (DOMPurify's default
    \<open>KEEP_CONTENT\<close>), unless its tag is in \<open>FORBID_CONTENTS\<close> (DOMPurify's default
    list);
  \<^item> an attribute stays when its name is in \<open>ALLOWED_ATTR\<close> or \<open>ADD_ATTR\<close> and not in
    \<open>FORBID_ATTR\<close>, and, for \<open>href\<close> and \<open>src\<close>, when its value is empty or passes
    \<open>ALLOWED_URI_REGEXP\<close> once its white space is taken out;
  \<^item> text stays, comments go.
  Tag and attribute names are compared in lower case.
\<close>

definition FORBID_CONTENTS :: "string list" where
  "FORBID_CONTENTS =
     [''annotation-xml'', ''audio'', ''colgroup'', ''desc'', ''foreignobject'', ''head'',
      ''iframe'', ''math'', ''mi'', ''mn'', ''mo'', ''ms'', ''mtext'', ''noembed'', ''noframes'',
      ''noscript'', ''plaintext'', ''script'', ''style'', ''svg'', ''template'', ''thead'',
      ''title'', ''video'', ''xmp'']"

definition URI_ATTRIBUTES :: "string list" where
  "URI_ATTRIBUTES = [''href'', ''src'']"

definition allowed_tag :: "SanitizeConfig \<Rightarrow> string \<Rightarrow> bool" where
  "allowed_tag cfg tag =
     (lowercase tag \<in> set (ALLOWED_TAGS cfg) \<and> lowercase tag \<notin> set (FORBID_TAGS cfg))"

definition allowed_attribute :: "SanitizeConfig \<Rightarrow> string \<times> string \<Rightarrow> bool" where
  "allowed_attribute cfg attr =
     (let lcName = lowercase (fst attr); v = snd attr
      in (lcName \<in> set (ALLOWED_ATTR cfg) \<or> lcName \<in> set (ADD_ATTR cfg)) \<and>
         lcName \<notin> set (FORBID_ATTR cfg) \<and>
         (if lcName \<in> set URI_ATTRIBUTES
          then v = [] \<or> ALLOWED_URI_REGEXP cfg (filter (\<lambda>c. (32::nat) < of_char c) v)
          else True))"

fun sanitize_node :: "SanitizeConfig \<Rightarrow> node \<Rightarrow> node list" where
  "sanitize_node cfg (Element tag attrs children) =
     (if allowed_tag cfg tag
      then [Element tag (filter (allowed_attribute cfg) attrs)
              (concat (map (sanitize_node cfg) children))]
      else if lowercase tag \<in> set FORBID_CONTENTS then []
      else concat (map (sanitize_node cfg) children))"
| "sanitize_node cfg (Text t) = [Text t]"
| "sanitize_node cfg (Comment c) = []"

definition sanitize_nodes :: "SanitizeConfig \<Rightarrow> node list \<Rightarrow> node list" where
  "sanitize_nodes cfg nodes = concat (map (sanitize_node cfg) nodes)"


text \<open>
  The imported \<open>DOMPurify\<close> object. Where no document is available (outside a browser
  window) it is \<open>Unsupported\<close> and has no \<open>sanitize\<close> function, so the call throws;
  otherwise it works with the parser and the serializer of the browser, which are
  parameters here. \<open>sanitize\<close> is \<open>DOMPurify.sanitize(dirty, cfg)\<close>: the clean string,
  or \<open>None\<close> when the call throws (the \<^verbatim>\<open>catch\<close> of \<open>sanitizeHtml\<close> binds nothing, so
  what was thrown is never read).
\<close>

datatype DOMPurify = Unsupported | Supported "string \<Rightarrow> node list" "node list \<Rightarrow> string"

fun sanitize :: "DOMPurify \<Rightarrow> SanitizeConfig \<Rightarrow> string \<Rightarrow> string option" where
  "sanitize Unsupported cfg dirty = None"
| "sanitize (Supported parseHTML serializeHTML) cfg dirty =
     Some (serializeHTML (sanitize_nodes cfg (parseHTML dirty)))"

section \<open>Validation service (ValidationService.ts, in src/block-editor.js)\<close>

text \<open>
  Zod and DOMPurify are third-party libraries; the service receives a schema as an
  argument and holds the imported \<open>DOMPurify\<close> object in its field \<open>domPurify\<close>.
\<close>

definition validate :: "jsvalue \<Rightarrow> ZodSchema \<Rightarrow> thrown + jsvalue" where
  "validate data schema =
     (case schema data of
        Parsed v \<Rightarrow> Inr v
      | ZodError issues \<Rightarrow>
          Inl (SecurityErr \<lparr>message = ''Input validation failed'', code = INVALID_INPUT,
                 details = Some (ValidationDetails issues data)\<rparr>)
      | ParseThrows err \<Rightarrow> Inl err)"

definition sanitizeHtml :: "DOMPurify \<Rightarrow> string \<Rightarrow> thrown + string" where
  "sanitizeHtml domPurify content =
     (case sanitize domPurify config content of
        Some clean \<Rightarrow> Inr clean
      | None \<Rightarrow>
          Inl (SecurityErr \<lparr>message = ''HTML sanitization failed'', code = INVALID_INPUT,
                 details = Some (SanitizeDetails (take 100 content @ ''...''))\<rparr>))"

definition htmlFields :: "string list" where
  "htmlFields = [''content'', ''description'', ''notes'', ''html'']"

definition containsHtmlContent :: "jsvalue \<Rightarrow> bool" where
  "containsHtmlContent obj =
     (if typeof obj \<noteq> ''object'' \<or> obj = JNull then False
      else
        let objRecord = own_properties obj
        in list_ex (\<lambda>field. has_property objRecord field \<and>
                      typeof (get_property objRecord field) = ''string'') htmlFields)"

text \<open>
  The \<^verbatim>\<open>for (const field of htmlFields)\<close> loop of \<open>sanitizeHtmlInObject\<close>, over the
  copy \<open>result\<close>: a field that is present and holds a string is overwritten in place
  with its sanitized form; a failure of \<open>sanitizeHtml\<close> leaves the loop.
\<close>

fun sanitize_loop ::
    "DOMPurify \<Rightarrow> string list \<Rightarrow> (string \<times> jsvalue) list \<Rightarrow> thrown + (string \<times> jsvalue) list" where
  "sanitize_loop domPurify [] result = Inr result"
| "sanitize_loop domPurify (field # rest) result =
     (if has_property result field \<and> typeof (get_property result field) = ''string'' then
        (case get_property result field of
           JStr content \<Rightarrow>
             (case sanitizeHtml domPurify content of
                Inl err \<Rightarrow> Inl err
              | Inr clean \<Rightarrow>
                  sanitize_loop domPurify rest (AList.update field (JStr clean) result))
         | _ \<Rightarrow> sanitize_loop domPurify rest result)
      else sanitize_loop domPurify rest result)"

definition sanitizeHtmlInObject :: "DOMPurify \<Rightarrow> jsvalue \<Rightarrow> thrown + jsvalue" where
  "sanitizeHtmlInObject domPurify obj =
     (if typeof obj \<noteq> ''object'' \<or> obj = JNull then Inr obj
      else
        (case sanitize_loop domPurify htmlFields (own_properties obj) of
           Inl err \<Rightarrow> Inl err
         | Inr result \<Rightarrow> Inr (JObj result)))"

definition validateAndSanitize :: "DOMPurify \<Rightarrow> jsvalue \<Rightarrow> ZodSchema \<Rightarrow> thrown + jsvalue" where
  "validateAndSanitize domPurify data schema =
     (case validate data schema of
        Inl err \<Rightarrow> Inl err
      | Inr validatedData \<Rightarrow>
          if containsHtmlContent validatedData
          then sanitizeHtmlInObject domPurify validatedData
          else Inr validatedData)"

section \<open>Authorization gate (SecureComponent and useSecureData, src/unnamed/part_000)\<close>

text \<open>
  \<^verbatim>\<open>interface SecureComponentState { isAuthorized; validatedData?; error?; isLoading }\<close>.
  An absent \<open>validatedData\<close> is \<open>JUndefined\<close>, an absent \<open>error\<close> is \<open>None\<close>.
\<close>

record SecureComponentState =
  isAuthorized :: bool
  validatedData :: jsvalue
  error :: "SecurityError option"
  isLoading :: bool

text \<open>The state \<open>useState\<close> starts from, and the first \<open>setState\<close> of the effect.\<close>

definition initialState :: SecureComponentState where
  "initialState =
     \<lparr>isAuthorized = False, validatedData = JUndefined, error = None, isLoading = True\<rparr>"

definition startChecking :: "SecureComponentState \<Rightarrow> SecureComponentState" where
  "startChecking prev = prev\<lparr>isLoading := True, error := None\<rparr>"

text \<open>The \<^verbatim>\<open>catch (error)\<close> block: the state it sets for what was thrown.\<close>

definition catchError :: "thrown \<Rightarrow> SecureComponentState" where
  "catchError err =
     (let securityError =
        (case err of
           SecurityErr e \<Rightarrow> e
         | OtherError _ \<Rightarrow>
             \<lparr>message = ''Unknown security error'', code = INVALID_INPUT, details = None\<rparr>)
      in \<lparr>isAuthorized = False, validatedData = JUndefined, error = Some securityError,
           isLoading = False\<rparr>)"

text \<open>
  \<open>validateAndAuthorize\<close>, the body of the effect, from the \<open>Checking\<close> state on. The
  result is the state of the last \<open>setState\<close>, paired with the list of the data values
  \<open>validationService.validateAndSanitize\<close> was called on (empty when it never ran).
  \<open>data && validationSchema\<close> is the schema when the data is truthy and a schema was
  given.
\<close>

definition SecureComponent_validateAndAuthorize ::
    "DOMPurify \<Rightarrow> User \<Rightarrow> Permission list \<Rightarrow> jsvalue \<Rightarrow> ZodSchema option \<Rightarrow>
     SecureComponentState \<times> jsvalue list" where
  "SecureComponent_validateAndAuthorize domPurify user requiredPermissions data validationSchema =
     (let hasPermissions =
            (length requiredPermissions = 0 \<or> hasAnyPermission user requiredPermissions)
      in if \<not> hasPermissions then
           (catchError (SecurityErr
              \<lparr>message = ''Insufficient permissions'', code = PERMISSION_DENIED,
               details = Some (GateDetails requiredPermissions (id' user))\<rparr>), [])
         else
           (case (if truthy data then validationSchema else None) of
              Some schema \<Rightarrow>
                (case validateAndSanitize domPurify data schema of
                   Inl err \<Rightarrow> (catchError err, [data])
                 | Inr validated \<Rightarrow>
                     (\<lparr>isAuthorized = True, validatedData = validated, error = None,
                       isLoading = False\<rparr>, [data]))
            | None \<Rightarrow>
                (\<lparr>isAuthorized = True, validatedData = JUndefined, error = None,
                  isLoading = False\<rparr>, [])))"

definition useSecureData_validateAndAuthorize ::
    "DOMPurify \<Rightarrow> User \<Rightarrow> Permission list \<Rightarrow> jsvalue \<Rightarrow> ZodSchema option \<Rightarrow>
     SecureComponentState \<times> jsvalue list" where
  "useSecureData_validateAndAuthorize domPurify user requiredPermissions data validationSchema =
     (let hasPermissions =
            (length requiredPermissions = 0 \<or> hasAnyPermission user requiredPermissions)
      in if \<not> hasPermissions then
           (catchError (SecurityErr
              \<lparr>message = ''Insufficient permissions'', code = PERMISSION_DENIED,
               details = Some (GateDetails requiredPermissions (id' user))\<rparr>), [])
         else
           (case (if truthy data then validationSchema else None) of
              Some schema \<Rightarrow>
                (case validateAndSanitize domPurify data schema of
                   Inl err \<Rightarrow> (catchError err, [data])
                 | Inr validated \<Rightarrow>
                     (\<lparr>isAuthorized = True, validatedData = validated, error = None,
                       isLoading = False\<rparr>, [data]))
            | None \<Rightarrow>
                (\<lparr>isAuthorized = True, validatedData = JUndefined, error = None,
                  isLoading = False\<rparr>, [])))"

text \<open>
  The two final states of the gate, as the \<open>setState\<close> calls write them: \<open>Authorized\<close>
  carries the validated data, \<open>Denied\<close> the error.
\<close>

definition Authorized :: "jsvalue \<Rightarrow> SecureComponentState" where
  "Authorized v = \<lparr>isAuthorized = True, validatedData = v, error = None, isLoading = False\<rparr>"

definition Denied :: "SecurityError \<Rightarrow> SecureComponentState" where
  "Denied e =
     \<lparr>isAuthorized = False, validatedData = JUndefined, error = Some e, isLoading = False\<rparr>"

text \<open>\<open>PermissionGuard\<close>: whether the children (rather than the fallback) render.\<close>

definition PermissionGuard :: "User \<Rightarrow> Permission list \<Rightarrow> bool" where
  "PermissionGuard user requiredPermissions =
     (length requiredPermissions = 0 \<or> hasAnyPermission user requiredPermissions)"

section \<open>Example inputs\<close>

text \<open>Concrete users and permissions at which the theorems below are instantiated.\<close>

definition exampleUser :: "bool \<Rightarrow> Permission list \<Rightarrow> User" where
  "exampleUser active perms =
     \<lparr>id' = ''user-1'', email = ''user@example.org'', permissions = perms,
      isActive = active, lastLogin = None\<rparr>"

definition docsUpdate :: "PermissionScope option \<Rightarrow> Permission" where
  "docsUpdate s = \<lparr>resource = ''docs'', action = Update, scope = s\<rparr>"

definition adminPermission :: Permission where
  "adminPermission = \<lparr>resource = ''*'', action = Configure, scope = Some Global\<rparr>"

text \<open>
  A parser and a serializer to stand for the browser's in the examples. The parser reads
  the markup the examples use: tags whose name and attributes are separated by single
  spaces, attribute values without spaces (in double quotes or bare), and text; it knows
  no entities and no comments. \<open>html_tokens\<close> cuts the string at \<open><\<close> and \<open>>\<close>,
  \<open>build_nodes\<close> nests the tokens with a stack of open elements.
\<close>

datatype html_token = TagToken string | TextToken string

fun html_tokens :: "string \<Rightarrow> string \<Rightarrow> bool \<Rightarrow> html_token list" where
  "html_tokens [] acc in_tag =
     (if acc = [] then [] else [if in_tag then TagToken (rev acc) else TextToken (rev acc)])"
| "html_tokens (c # cs) acc in_tag =
     (if in_tag then
        (if c = CHR ''>'' then TagToken (rev acc) # html_tokens cs [] False
         else html_tokens cs (c # acc) True)
      else if c = CHR ''<'' then
        (if acc = [] then html_tokens cs [] True
         else TextToken (rev acc) # html_tokens cs [] True)
      else html_tokens cs (c # acc) False)"

fun split_words :: "string \<Rightarrow> string \<Rightarrow> string list" where
  "split_words [] acc = (if acc = [] then [] else [rev acc])"
| "split_words (c # cs) acc =
     (if c = CHR '' '' then
        (if acc = [] then split_words cs [] else rev acc # split_words cs [])
      else split_words cs (c # acc))"

definition unquote :: "string \<Rightarrow> string" where
  "unquote v =
     (if 2 \<le> length v \<and> take 1 v = [CHR 0x22] \<and> take 1 (rev v) = [CHR 0x22]
      then butlast (tl v) else v)"

definition parse_attribute :: "string \<Rightarrow> string \<times> string" where
  "parse_attribute w =
     (takeWhile (\<lambda>c. c \<noteq> CHR ''='') w, unquote (drop 1 (dropWhile (\<lambda>c. c \<noteq> CHR ''='') w)))"

definition void_elements :: "string list" where
  "void_elements = [''br'', ''hr'', ''img'', ''input'', ''embed'']"

type_synonym open_element = "string \<times> (string \<times> string) list \<times> node list"

fun add_child :: "node \<Rightarrow> open_element list \<Rightarrow> node list \<Rightarrow> open_element list \<times> node list" where
  "add_child n [] roots = ([], n # roots)"
| "add_child n ((tag, attrs, children) # stack) roots = ((tag, attrs, n # children) # stack, roots)"

fun close_all :: "open_element list \<Rightarrow> node list \<Rightarrow> node list" where
  "close_all [] roots = rev roots"
| "close_all [(tag, attrs, children)] roots = rev (Element tag attrs (rev children) # roots)"
| "close_all ((tag, attrs, children) # (ptag, pattrs, pchildren) # stack) roots =
     close_all ((ptag, pattrs, Element tag attrs (rev children) # pchildren) # stack) roots"

fun build_nodes :: "html_token list \<Rightarrow> open_element list \<Rightarrow> node list \<Rightarrow> node list" where
  "build_nodes [] stack roots = close_all stack roots"
| "build_nodes (TextToken s # tokens) stack roots =
     (case add_child (Text s) stack roots of
        (stack', roots') \<Rightarrow> build_nodes tokens stack' roots')"
| "build_nodes (TagToken w # tokens) stack roots =
     (if take 1 w = ''/'' then
        (case stack of
           [] \<Rightarrow> build_nodes tokens [] roots
         | (tag, attrs, children) # rest \<Rightarrow>
             (case add_child (Element tag attrs (rev children)) rest roots of
                (stack', roots') \<Rightarrow> build_nodes tokens stack' roots'))
      else
        (case split_words w [] of
           [] \<Rightarrow> build_nodes tokens stack roots
         | name # attrs \<Rightarrow>
             if name \<in> set void_elements then
               (case add_child (Element name (map parse_attribute attrs) []) stack roots of
                  (stack', roots') \<Rightarrow> build_nodes tokens stack' roots')
             else build_nodes tokens ((name, map parse_attribute attrs, []) # stack) roots))"

definition exampleParse :: "string \<Rightarrow> node list" where
  "exampleParse s = build_nodes (html_tokens s [] False) [] []"

fun serialize_node :: "node \<Rightarrow> string" where
  "serialize_node (Element tag attrs children) =
     ''<'' @ tag @
     concat (map (\<lambda>(n, v). '' '' @ n @ ''='' @ [CHR 0x22] @ v @ [CHR 0x22]) attrs) @ ''>'' @
     (if tag \<in> set void_elements then []
      else concat (map serialize_node children) @ ''</'' @ tag @ ''>'')"
| "serialize_node (Text t) = t"
| "serialize_node (Comment c) = ''<!--'' @ c @ ''-->''"

definition exampleSerialize :: "node list \<Rightarrow> string" where
  "exampleSerialize nodes = concat (map serialize_node nodes)"

definition exampleDOM :: DOMPurify where
  "exampleDOM = Supported exampleParse exampleSerialize"

text \<open>
  Schemas for the examples: \<open>z.unknown()\<close>, \<open>z.string().min(1)\<close>, a schema whose
  \<open>parse\<close> throws an error that is not a \<open>ZodError\<close>, and one whose \<open>parse\<close> throws
  a \<open>SecurityError\<close>. \<open>exampleUuid\<close> tests for five groups of 8, 4, 4, 4 and 12
  hexadecimal digits joined by hyphens.
\<close>

definition passSchema :: ZodSchema where
  "passSchema = zod_parse ZUnknown"

definition nonEmptyStringSchema :: ZodSchema where
  "nonEmptyStringSchema = zod_parse (ZString [MinLength 1])"

definition throwingSchema :: ZodSchema where
  "throwingSchema data =
     ParseThrows
       (OtherError ''Async refinement encountered during synchronous parse operation'')"

definition denyingSchema :: ZodSchema where
  "denyingSchema data =
     ParseThrows
       (SecurityErr \<lparr>message = ''Not for you'', code = PERMISSION_DENIED, details = None\<rparr>)"

definition hex_digit :: "char \<Rightarrow> bool" where
  "hex_digit c = (c \<in> set ''0123456789abcdefABCDEF'')"

fun hex_groups :: "nat list \<Rightarrow> string \<Rightarrow> bool" where
  "hex_groups [] s = (s = [])"
| "hex_groups [n] s = (length s = n \<and> list_all hex_digit s)"
| "hex_groups (n # ns) s =
     (length (take n s) = n \<and> list_all hex_digit (take n s) \<and> take 1 (drop n s) = ''-'' \<and>
      hex_groups ns (drop (Suc n) s))"

definition exampleUuid :: "string \<Rightarrow> bool" where
  "exampleUuid s = hex_groups [8, 4, 4, 4, 12] s"

text \<open>
  A stand-in for the test of Zod's email pattern, and a user object that breaks
  \<open>UserSchema\<close> in three places: its email, and the resource and the missing action
  of its second permission.
\<close>

definition exampleEmail :: "string \<Rightarrow> bool" where
  "exampleEmail s = (CHR ''@'' \<in> set s)"

definition exampleUserData :: jsvalue where
  "exampleUserData = JObj
     [(''id'', JStr ''123e4567-e89b-12d3-a456-426614174000''),
      (''email'', JStr ''nobody''),
      (''permissions'',
         JArr [JObj [(''resource'', JStr ''docs''), (''action'', JStr ''read'')],
               JObj [(''resource'', JStr [])]]),
      (''isActive'', JBool True)]"

text \<open>
  A document-content object whose \<open>content\<close> carries an \<open>onclick\<close> attribute. Its
  title and the notes inside its metadata carry markup too, and the raw object has a key
  \<open>notes\<close> that \<open>DocumentContentSchema\<close> does not declare. \<open>exampleDocumentValidated\<close>
  is what the schema returns for it, and \<open>exampleDocumentSanitized\<close> differs from that
  in \<open>content\<close> only.
\<close>

definition exampleDocument :: jsvalue where
  "exampleDocument = JObj
     [(''notes'', JStr ''<p onclick=x()>raw</p>''),
      (''id'', JStr ''123e4567-e89b-12d3-a456-426614174000''),
      (''title'', JStr ''Chapter <b onclick=x()>one</b>''),
      (''content'', JStr ''<p onclick=x()>hi</p>''),
      (''contentType'', JStr ''html''),
      (''metadata'', JObj [(''notes'', JStr ''<p onclick=x()>hi</p>'')]),
      (''createdAt'', JDate 0),
      (''updatedAt'', JDate 86400000),
      (''authorId'', JStr ''123e4567-e89b-12d3-a456-426614174001'')]"

definition exampleDocumentValidated :: jsvalue where
  "exampleDocumentValidated = JObj
     [(''id'', JStr ''123e4567-e89b-12d3-a456-426614174000''),
      (''title'', JStr ''Chapter <b onclick=x()>one</b>''),
      (''content'', JStr ''<p onclick=x()>hi</p>''),
      (''contentType'', JStr ''html''),
      (''metadata'', JObj [(''notes'', JStr ''<p onclick=x()>hi</p>'')]),
      (''createdAt'', JDate 0),
      (''updatedAt'', JDate 86400000),
      (''authorId'', JStr ''123e4567-e89b-12d3-a456-426614174001'')]"

definition exampleDocumentSanitized :: jsvalue where
  "exampleDocumentSanitized = JObj
     [(''id'', JStr ''123e4567-e89b-12d3-a456-426614174000''),
      (''title'', JStr ''Chapter <b onclick=x()>one</b>''),
      (''content'', JStr ''<p>hi</p>''),
      (''contentType'', JStr ''html''),
      (''metadata'', JObj [(''notes'', JStr ''<p onclick=x()>hi</p>'')]),
      (''createdAt'', JDate 0),
      (''updatedAt'', JDate 86400000),
      (''authorId'', JStr ''123e4567-e89b-12d3-a456-426614174001'')]"



section \<open>Scope matching\<close>

lemma scope_string_neq_Nil: "scope_string s \<noteq> []"
  by (cases s) simp_all

lemma scopeMatches_typed:
  "scopeMatches (map_option scope_string us) (map_option scope_string rs) =
     (case us of
        None \<Rightarrow> rs = None
      | Some Global \<Rightarrow> True
      | Some Project \<Rightarrow> rs = Some Project \<or> rs = Some Own
      | Some Own \<Rightarrow> rs = Some Own)"
proof (cases us)
  case None
  then show ?thesis
    by (cases rs) (simp_all add: scopeMatches_def not_string_def scope_string_neq_Nil)
next
  case (Some u)
  show ?thesis
  proof (cases rs)
    case None
    with Some show ?thesis
      by (cases u) (simp_all add: scopeMatches_def not_string_def)
  next
    case (Some r)
    with \<open>us = Some u\<close> show ?thesis
      by (cases u; cases r) (simp_all add: scopeMatches_def not_string_def)
  qed
qed

lemma permissionsMatch_typed:
  "permissionsMatch up rp =
     (resource up = resource rp \<and> action up = action rp \<and>
      (case scope up of
         None \<Rightarrow> scope rp = None
       | Some Global \<Rightarrow> True
       | Some Project \<Rightarrow> scope rp = Some Project \<or> scope rp = Some Own
       | Some Own \<Rightarrow> scope rp = Some Own))"
  unfolding permissionsMatch_def scopeMatches_typed by simp

lemma hasPermission_iff:
  "hasPermission user required \<longleftrightarrow>
     isActive user \<and> (\<exists>granted \<in> set (permissions user). permissionsMatch granted required)"
  by (simp add: hasPermission_def list_ex_iff)

text \<open>
  Claim C1. Scope matching is hierarchical and directional. For granted and required
  permissions with the same resource and action: a granted scope of global satisfies
  every required scope; a granted scope of project satisfies exactly the required scopes
  project and own (so not global); a granted scope of own satisfies exactly the required
  scope own. An active user who holds a global grant for the resource and action has
  every requirement on them; an active user holding only the project-scope grant on
  docs/update has the own-scope requirement, and an active user holding only the
  own-scope grant does not have the project-scope requirement.
\<close>

theorem scope_hierarchy:
  assumes "resource granted = resource required"
      and "action granted = action required"
  shows "(scope granted = Some Global \<longrightarrow> permissionsMatch granted required) \<and>
         (scope granted = Some Project \<longrightarrow>
            (permissionsMatch granted required \<longleftrightarrow>
               scope required = Some Project \<or> scope required = Some Own)) \<and>
         (scope granted = Some Own \<longrightarrow>
            (permissionsMatch granted required \<longleftrightarrow> scope required = Some Own)) \<and>
         (\<forall>user. isActive user \<and> granted \<in> set (permissions user) \<and>
            scope granted = Some Global \<longrightarrow> hasPermission user required) \<and>
         (\<forall>user. isActive user \<and> permissions user = [docsUpdate (Some Project)] \<longrightarrow>
            hasPermission user (docsUpdate (Some Own))) \<and>
         (\<forall>user. isActive user \<and> permissions user = [docsUpdate (Some Own)] \<longrightarrow>
            \<not> hasPermission user (docsUpdate (Some Project)))"
proof (intro conjI allI impI)
  assume "scope granted = Some Global"
  with assms show "permissionsMatch granted required"
    by (simp add: permissionsMatch_typed)
next
  assume "scope granted = Some Project"
  with assms show "permissionsMatch granted required \<longleftrightarrow>
      scope required = Some Project \<or> scope required = Some Own"
    by (simp add: permissionsMatch_typed)
next
  assume "scope granted = Some Own"
  with assms show "permissionsMatch granted required \<longleftrightarrow> scope required = Some Own"
    by (simp add: permissionsMatch_typed)
next
  fix user :: User
  assume "isActive user \<and> granted \<in> set (permissions user) \<and> scope granted = Some Global"
  moreover from this assms have "permissionsMatch granted required"
    by (simp add: permissionsMatch_typed)
  ultimately show "hasPermission user required"
    unfolding hasPermission_iff by blast
next
  fix user :: User
  assume "isActive user \<and> permissions user = [docsUpdate (Some Project)]"
  then show "hasPermission user (docsUpdate (Some Own))"
    by (simp add: hasPermission_iff permissionsMatch_typed docsUpdate_def)
next
  fix user :: User
  assume "isActive user \<and> permissions user = [docsUpdate (Some Own)]"
  then show "\<not> hasPermission user (docsUpdate (Some Project))"
    by (simp add: hasPermission_iff permissionsMatch_typed docsUpdate_def)
qed

theorem scope_hierarchy_witness:
  "permissionsMatch (docsUpdate (Some Global)) (docsUpdate None) \<and>
   permissionsMatch (docsUpdate (Some Global)) (docsUpdate (Some Project)) \<and>
   permissionsMatch (docsUpdate (Some Project)) (docsUpdate (Some Own)) \<and>
   \<not> permissionsMatch (docsUpdate (Some Project)) (docsUpdate (Some Global)) \<and>
   \<not> permissionsMatch (docsUpdate (Some Own)) (docsUpdate (Some Project)) \<and>
   hasPermission (exampleUser True [docsUpdate (Some Project)]) (docsUpdate (Some Own)) \<and>
   \<not> hasPermission (exampleUser True [docsUpdate (Some Own)]) (docsUpdate (Some Project))"
  using scope_hierarchy [of "docsUpdate (Some Global)" "docsUpdate None"]
    scope_hierarchy [of "docsUpdate (Some Global)" "docsUpdate (Some Project)"]
    scope_hierarchy [of "docsUpdate (Some Project)" "docsUpdate (Some Own)"]
    scope_hierarchy [of "docsUpdate (Some Project)" "docsUpdate (Some Global)"]
    scope_hierarchy [of "docsUpdate (Some Own)" "docsUpdate (Some Project)"]
  by (simp add: docsUpdate_def exampleUser_def)

text \<open>
  Claim C2, as stated, fails: a granted permission whose scope is global does satisfy a
  required permission that omits its scope, because \<open>scopeMatches\<close> returns at
  \<open>userScope === 'global'\<close> before it reaches the final comparison.
\<close>

theorem global_grant_unscoped_requirement_counterexample:
  "scope \<lparr>resource = ''docs'', action = Read, scope = Some Global\<rparr> \<noteq> None \<and>
   scope \<lparr>resource = ''docs'', action = Read, scope = None\<rparr> = None \<and>
   permissionsMatch \<lparr>resource = ''docs'', action = Read, scope = Some Global\<rparr>
     \<lparr>resource = ''docs'', action = Read, scope = None\<rparr>"
  by (simp add: permissionsMatch_def scopeMatches_def not_string_def)

text \<open>
  Claim C2, amended. For granted and required permissions with the same resource and
  action: when both omit the scope they match; a grant that omits its scope does not
  satisfy a scoped requirement; a grant of scope project or own does not satisfy a
  requirement that omits its scope; a grant of scope global does satisfy it. On the
  scope strings: with exactly one side undefined and the other a non-empty string, the
  result is false, except for a user scope of \<open>'global'\<close>.
\<close>

theorem omitted_scope_matching:
  assumes "resource granted = resource required"
      and "action granted = action required"
  shows "(scope granted = None \<and> scope required = None \<longrightarrow>
            permissionsMatch granted required) \<and>
         (scope granted = None \<and> scope required \<noteq> None \<longrightarrow>
            \<not> permissionsMatch granted required) \<and>
         (scope granted = Some Project \<and> scope required = None \<longrightarrow>
            \<not> permissionsMatch granted required) \<and>
         (scope granted = Some Own \<and> scope required = None \<longrightarrow>
            \<not> permissionsMatch granted required) \<and>
         (scope granted = Some Global \<and> scope required = None \<longrightarrow>
            permissionsMatch granted required) \<and>
         (\<forall>s. s \<noteq> [] \<longrightarrow> \<not> scopeMatches None (Some s)) \<and>
         (\<forall>s. s \<noteq> [] \<longrightarrow> scopeMatches (Some s) None = (s = ''global''))"
  using assms
  by (auto simp: permissionsMatch_typed scopeMatches_def not_string_def)

theorem omitted_scope_matching_witness:
  "permissionsMatch (docsUpdate None) (docsUpdate None) \<and>
   \<not> permissionsMatch (docsUpdate None) (docsUpdate (Some Own)) \<and>
   \<not> permissionsMatch (docsUpdate (Some Project)) (docsUpdate None) \<and>
   \<not> permissionsMatch (docsUpdate (Some Own)) (docsUpdate None) \<and>
   permissionsMatch (docsUpdate (Some Global)) (docsUpdate None) \<and>
   \<not> scopeMatches None (Some ''own'') \<and>
   \<not> scopeMatches (Some ''project'') None \<and>
   scopeMatches (Some ''global'') None"
  using omitted_scope_matching [of "docsUpdate None" "docsUpdate None"]
    omitted_scope_matching [of "docsUpdate None" "docsUpdate (Some Own)"]
    omitted_scope_matching [of "docsUpdate (Some Project)" "docsUpdate None"]
    omitted_scope_matching [of "docsUpdate (Some Own)" "docsUpdate None"]
    omitted_scope_matching [of "docsUpdate (Some Global)" "docsUpdate None"]
  by (simp add: docsUpdate_def)

text \<open>
  Claim C3. For every user whose \<open>isActive\<close> is false and every required permission,
  \<open>hasPermission\<close> is false, whatever the user's permission list holds.
\<close>

theorem inactive_user_has_no_permission:
  assumes "\<not> isActive user"
  shows "\<not> hasPermission user required"
  using assms by (simp add: hasPermission_def)

theorem inactive_user_has_no_permission_witness:
  "\<not> isActive (exampleUser False [docsUpdate (Some Global), adminPermission]) \<and>
   docsUpdate (Some Global) \<in>
     set (permissions (exampleUser False [docsUpdate (Some Global), adminPermission])) \<and>
   \<not> hasPermission (exampleUser False [docsUpdate (Some Global), adminPermission])
       (docsUpdate (Some Global))"
  using inactive_user_has_no_permission
    [of "exampleUser False [docsUpdate (Some Global), adminPermission]"
        "docsUpdate (Some Global)"]
  by (simp add: exampleUser_def)

text \<open>
  Claim C6, as stated, fails for an inactive user: the user's permission list holds
  exactly the global-admin permission, and \<open>isGlobalAdmin\<close> is false, because
  \<open>hasPermission\<close> returns false for an inactive user before it reads the list.
\<close>

theorem inactive_admin_counterexample:
  "adminPermission = \<lparr>resource = ''*'', action = Configure, scope = Some Global\<rparr> \<and>
   adminPermission \<in> set (permissions (exampleUser False [adminPermission])) \<and>
   \<not> isGlobalAdmin (exampleUser False [adminPermission])"
  by (simp add: adminPermission_def exampleUser_def isGlobalAdmin_def hasPermission_def)

text \<open>
  Claim C6, amended. For every user, \<open>isGlobalAdmin\<close> is true if and only if the user
  is active and its permission list holds exactly the permission with resource \<open>*\<close>,
  action configure and scope global. A user none of whose permissions is on the resource
  \<open>*\<close> (one who holds configure/global on docs, say) is not a global admin.
\<close>

theorem isGlobalAdmin_iff:
  "(isGlobalAdmin user \<longleftrightarrow>
      isActive user \<and>
      \<lparr>resource = ''*'', action = Configure, scope = Some Global\<rparr> \<in> set (permissions user)) \<and>
   ((\<forall>p \<in> set (permissions user). resource p \<noteq> ''*'') \<longrightarrow> \<not> isGlobalAdmin user)"
proof -
  have match: "permissionsMatch granted \<lparr>resource = ''*'', action = Configure, scope = Some Global\<rparr>
      \<longleftrightarrow> granted = \<lparr>resource = ''*'', action = Configure, scope = Some Global\<rparr>"
    for granted
  proof (cases granted)
    case (fields r a s)
    then show ?thesis
      by (auto simp: permissionsMatch_typed split: option.splits PermissionScope.splits)
  qed
  have iff: "isGlobalAdmin user \<longleftrightarrow>
      isActive user \<and>
      \<lparr>resource = ''*'', action = Configure, scope = Some Global\<rparr> \<in> set (permissions user)"
    by (simp add: isGlobalAdmin_def hasPermission_iff match)
  moreover have "\<not> isGlobalAdmin user" if "\<forall>p \<in> set (permissions user). resource p \<noteq> ''*''"
    using that iff by auto
  ultimately show ?thesis by blast
qed

theorem isGlobalAdmin_iff_witness:
  "isGlobalAdmin (exampleUser True [docsUpdate (Some Own), adminPermission]) \<and>
   \<not> isGlobalAdmin (exampleUser False [docsUpdate (Some Own), adminPermission]) \<and>
   \<not> isGlobalAdmin
       (exampleUser True [\<lparr>resource = ''docs'', action = Configure, scope = Some Global\<rparr>])"
  using isGlobalAdmin_iff [of "exampleUser True [docsUpdate (Some Own), adminPermission]"]
    isGlobalAdmin_iff [of "exampleUser False [docsUpdate (Some Own), adminPermission]"]
    isGlobalAdmin_iff
      [of "exampleUser True [\<lparr>resource = ''docs'', action = Configure, scope = Some Global\<rparr>]"]
  by (simp add: exampleUser_def adminPermission_def docsUpdate_def)

text \<open>
  Claim C9, as stated, fails for an inactive user: its only grant is the own-scope one,
  and \<open>filterByPermissions\<close> returns no item, because \<open>hasPermission\<close> is false for
  an inactive user at every scope.
\<close>

theorem inactive_own_grant_counterexample:
  "permissions (exampleUser False [docsUpdate (Some Own)]) = [docsUpdate (Some Own)] \<and>
   filterByPermissions (exampleUser False [docsUpdate (Some Own)])
       [''item-1'', ''item-2'', ''item-3''] \<lparr>resource = ''docs'', action = Update\<rparr> = []"
  by (simp add: exampleUser_def filterByPermissions_def hasPermission_def)

text \<open>
  Claim C9, amended. \<open>filterByPermissions\<close> is all-or-nothing: the filter predicate
  never reads the item, so the result is the whole input list when the user has the
  requirement at global, else project, else own scope, and the empty list otherwise. A
  user whose only grant is the own-scope one therefore receives every item, not merely
  items they own, when active, and no item when inactive.
\<close>

theorem filterByPermissions_all_or_nothing:
  "(filterByPermissions user items required = items \<or>
    filterByPermissions user items required = []) \<and>
   filterByPermissions user items required =
     (if hasPermission user
           \<lparr>resource = resource required, action = action required, scope = Some Global\<rparr> \<or>
         hasPermission user
           \<lparr>resource = resource required, action = action required, scope = Some Project\<rparr> \<or>
         hasPermission user
           \<lparr>resource = resource required, action = action required, scope = Some Own\<rparr>
      then items else []) \<and>
   (permissions user =
      [\<lparr>resource = resource required, action = action required, scope = Some Own\<rparr>] \<longrightarrow>
    filterByPermissions user items required = (if isActive user then items else []))"
proof -
  let ?g = "\<lparr>resource = resource required, action = action required, scope = Some Global\<rparr>"
  let ?p = "\<lparr>resource = resource required, action = action required, scope = Some Project\<rparr>"
  let ?o = "\<lparr>resource = resource required, action = action required, scope = Some Own\<rparr>"
  have eq: "filterByPermissions user items required =
      (if hasPermission user ?g \<or> hasPermission user ?p \<or> hasPermission user ?o
       then items else [])"
    by (simp add: filterByPermissions_def Let_def)
  have own: "hasPermission user ?o" if "isActive user" "permissions user = [?o]"
    using that by (simp add: hasPermission_iff permissionsMatch_typed)
  have inactive: "\<not> hasPermission user p" if "\<not> isActive user" for p
    using that by (simp add: hasPermission_def)
  have only: "filterByPermissions user items required = (if isActive user then items else [])"
    if "permissions user = [?o]"
  proof (cases "isActive user")
    case True
    with own [OF True that] eq show ?thesis by simp
  next
    case False
    with inactive eq show ?thesis by simp
  qed
  from eq only show ?thesis by auto
qed

theorem filterByPermissions_all_or_nothing_witness:
  "filterByPermissions (exampleUser True [docsUpdate (Some Own)])
       [''item-1'', ''item-2'', ''item-3''] \<lparr>resource = ''docs'', action = Update\<rparr> =
     [''item-1'', ''item-2'', ''item-3''] \<and>
   filterByPermissions (exampleUser False [docsUpdate (Some Own)])
       [''item-1'', ''item-2'', ''item-3''] \<lparr>resource = ''docs'', action = Update\<rparr> = [] \<and>
   filterByPermissions (exampleUser True [docsUpdate None])
       [''item-1'', ''item-2'', ''item-3''] \<lparr>resource = ''docs'', action = Update\<rparr> = []"
proof -
  have none: "\<not> hasPermission (exampleUser True [docsUpdate None]) (docsUpdate (Some s))" for s
    by (simp add: hasPermission_iff permissionsMatch_typed exampleUser_def docsUpdate_def)
  have whole: "filterByPermissions (exampleUser True [docsUpdate (Some Own)])
      [''item-1'', ''item-2'', ''item-3''] \<lparr>resource = ''docs'', action = Update\<rparr> =
      [''item-1'', ''item-2'', ''item-3'']"
    using filterByPermissions_all_or_nothing
        [of "exampleUser True [docsUpdate (Some Own)]" "[''item-1'', ''item-2'', ''item-3'']"
            "\<lparr>resource = ''docs'', action = Update\<rparr>", THEN conjunct2, THEN conjunct2]
    by (simp add: exampleUser_def docsUpdate_def)
  have refused: "filterByPermissions (exampleUser False [docsUpdate (Some Own)])
      [''item-1'', ''item-2'', ''item-3''] \<lparr>resource = ''docs'', action = Update\<rparr> = []"
    using filterByPermissions_all_or_nothing
        [of "exampleUser False [docsUpdate (Some Own)]" "[''item-1'', ''item-2'', ''item-3'']"
            "\<lparr>resource = ''docs'', action = Update\<rparr>", THEN conjunct2, THEN conjunct2]
    by (simp add: exampleUser_def docsUpdate_def)
  have empty: "filterByPermissions (exampleUser True [docsUpdate None])
      [''item-1'', ''item-2'', ''item-3''] \<lparr>resource = ''docs'', action = Update\<rparr> = []"
    using filterByPermissions_all_or_nothing
        [of "exampleUser True [docsUpdate None]" "[''item-1'', ''item-2'', ''item-3'']"
            "\<lparr>resource = ''docs'', action = Update\<rparr>", THEN conjunct2, THEN conjunct1]
      none [of Global] none [of Project] none [of Own]
    by (simp add: docsUpdate_def)
  from whole refused empty show ?thesis by blast
qed

section \<open>Validation and sanitization\<close>










lemma sanitizeHtml_cases:
  "(\<exists>clean. sanitizeHtml dp s = Inr clean) \<or> (\<exists>err. sanitizeHtml dp s = Inl err)"
  by (cases "sanitizeHtml dp s") auto







text \<open>Declared schemas: a required field that is missing, and the keys of the output.\<close>

lemma zod_issues_undefined:
  "\<not> accepts_undefined t \<Longrightarrow> zod_issues t path JUndefined = [ZodIssue ''invalid_type'' path ''Required'']"
  by (cases t) (simp_all add: invalid_type_def)

lemma missing_required_field:
  assumes "(key, keyValidator) \<in> set shape"
      and "\<not> accepts_undefined keyValidator"
      and "\<not> has_property props key"
  shows "ZodIssue ''invalid_type'' (path @ [Key key]) ''Required''
           \<in> set (zod_issues_shape shape path props)"
  using assms(1)
proof (induction shape)
  case Nil
  then show ?case by simp
next
  case (Cons entry shape)
  obtain k t where entry: "entry = (k, t)" by (cases entry)
  show ?case
  proof (cases "entry = (key, keyValidator)")
    case True
    from assms(3) have "get_property props key = JUndefined"
      by (simp add: has_property_def get_property_def)
    with True assms(2) show ?thesis
      by (simp add: zod_issues_undefined)
  next
    case False
    with Cons.prems have "(key, keyValidator) \<in> set shape" by auto
    with Cons.IH entry show ?thesis by simp
  qed
qed




lemma zod_parse_Parsed:
  "zod_parse t data = Parsed v \<longleftrightarrow> zod_issues t [] data = [] \<and> v = zod_output t data"
  by (auto simp: zod_parse_def Let_def)













text \<open>The example document: what the schema returns for it, and what the pipeline does.\<close>

lemma exampleUuid_ids:
  "exampleUuid ''123e4567-e89b-12d3-a456-426614174000''"
  "exampleUuid ''123e4567-e89b-12d3-a456-426614174001''"
  by code_simp+

lemma exampleDocument_valid:
  "validate exampleDocument (zod_parse (DocumentContentSchema exampleUuid)) =
     Inr exampleDocumentValidated"
  by (simp add: validate_def zod_parse_def DocumentContentSchema_def exampleDocument_def
      exampleDocumentValidated_def get_property_def has_property_def exampleUuid_ids)

lemma exampleDocument_html: "containsHtmlContent exampleDocumentValidated"
  by code_simp

lemma exampleDocument_sanitized:
  "validateAndSanitize exampleDOM exampleDocument (zod_parse (DocumentContentSchema exampleUuid)) =
     Inr exampleDocumentSanitized"
proof -
  have "sanitizeHtmlInObject exampleDOM exampleDocumentValidated = Inr exampleDocumentSanitized"
    by code_simp
  then show ?thesis
    by (simp add: validateAndSanitize_def exampleDocument_valid exampleDocument_html)
qed

lemma exampleDocument_unsupported:
  "validateAndSanitize Unsupported exampleDocument (zod_parse (DocumentContentSchema exampleUuid)) =
     Inl (SecurityErr \<lparr>message = ''HTML sanitization failed'', code = INVALID_INPUT,
            details = Some (SanitizeDetails ''<p onclick=x()>hi</p>...'')\<rparr>)"
proof -
  have "sanitizeHtmlInObject Unsupported exampleDocumentValidated =
     Inl (SecurityErr \<lparr>message = ''HTML sanitization failed'', code = INVALID_INPUT,
            details = Some (SanitizeDetails ''<p onclick=x()>hi</p>...'')\<rparr>)"
    by code_simp
  then show ?thesis
    by (simp add: validateAndSanitize_def exampleDocument_valid exampleDocument_html)
qed





text \<open>
  Claim C8, as stated, fails: when \<open>schema.parse\<close> throws an error that is not a
  \<open>ZodError\<close>, \<open>validate\<close> re-throws that error; it neither returns a value nor fails
  with a \<open>SecurityError\<close> of code \<open>INVALID_INPUT\<close>.
\<close>

theorem validate_rethrows_counterexample:
  "validate (JStr ''x'') throwingSchema =
     Inl (OtherError ''Async refinement encountered during synchronous parse operation'')"
  by (simp add: validate_def throwingSchema_def)

text \<open>
  Claim C8, amended. For every data value and schema, \<open>validate\<close> has one of three
  outcomes: it returns the value the schema parsed; or, when the schema throws a
  \<open>ZodError\<close>, it fails with the \<open>SecurityError\<close> of code \<open>INVALID_INPUT\<close> whose
  details are the \<open>ZodError\<close>'s list of issues, unchanged (one issue with its own path and
  message per violation), and the data received; or it re-throws any other error of the
  schema as it is. In particular, for every declared object schema and every object that
  lacks one of its required fields, \<open>validate\<close> fails with \<open>INVALID_INPUT\<close>, and the
  issues hold one whose path is that field.
\<close>

theorem validate_outcomes:
  "((\<exists>v. schema data = Parsed v \<and> validate data schema = Inr v) \<or>
    (\<exists>issues. schema data = ZodError issues \<and>
       validate data schema =
         Inl (SecurityErr \<lparr>message = ''Input validation failed'', code = INVALID_INPUT,
                details = Some (ValidationDetails issues data)\<rparr>)) \<or>
    (\<exists>err. schema data = ParseThrows err \<and> validate data schema = Inl err)) \<and>
   (\<forall>shape props key keyValidator.
      schema = zod_parse (ZObject shape) \<and> data = JObj props \<and>
      (key, keyValidator) \<in> set shape \<and> \<not> accepts_undefined keyValidator \<and>
      \<not> has_property props key \<longrightarrow>
      (\<exists>issues. validate data schema =
           Inl (SecurityErr \<lparr>message = ''Input validation failed'', code = INVALID_INPUT,
                  details = Some (ValidationDetails issues data)\<rparr>) \<and>
         ZodIssue ''invalid_type'' [Key key] ''Required'' \<in> set issues \<and>
         [Key key] \<in> issue_path ` set issues))"
proof (intro conjI allI impI)
  show "(\<exists>v. schema data = Parsed v \<and> validate data schema = Inr v) \<or>
    (\<exists>issues. schema data = ZodError issues \<and>
       validate data schema =
         Inl (SecurityErr \<lparr>message = ''Input validation failed'', code = INVALID_INPUT,
                details = Some (ValidationDetails issues data)\<rparr>)) \<or>
    (\<exists>err. schema data = ParseThrows err \<and> validate data schema = Inl err)"
    by (cases "schema data") (simp_all add: validate_def)
next
  fix shape props key keyValidator
  assume a: "schema = zod_parse (ZObject shape) \<and> data = JObj props \<and>
      (key, keyValidator) \<in> set shape \<and> \<not> accepts_undefined keyValidator \<and>
      \<not> has_property props key"
  let ?issues = "zod_issues_shape shape [] props"
  from a have "(key, keyValidator) \<in> set shape" "\<not> accepts_undefined keyValidator"
      "\<not> has_property props key"
    by blast+
  from missing_required_field [OF this, of "[]"]
  have issue: "ZodIssue ''invalid_type'' [Key key] ''Required'' \<in> set ?issues"
    by simp
  then have "?issues \<noteq> []" by auto
  with a have "validate data schema =
      Inl (SecurityErr \<lparr>message = ''Input validation failed'', code = INVALID_INPUT,
             details = Some (ValidationDetails ?issues data)\<rparr>)"
    by (simp add: validate_def zod_parse_def)
  moreover from issue have "[Key key] \<in> issue_path ` set ?issues"
    by force
  ultimately show "\<exists>issues. validate data schema =
           Inl (SecurityErr \<lparr>message = ''Input validation failed'', code = INVALID_INPUT,
                  details = Some (ValidationDetails issues data)\<rparr>) \<and>
         ZodIssue ''invalid_type'' [Key key] ''Required'' \<in> set issues \<and>
         [Key key] \<in> issue_path ` set issues"
    using issue by blast
qed

theorem validate_outcomes_witness:
  "\<not> has_property [(''resource'', JStr ''docs''), (''scope'', JStr ''own'')] ''action'' \<and>
   validate (JObj [(''resource'', JStr ''docs''), (''scope'', JStr ''own'')])
       (zod_parse PermissionSchema) =
     Inl (SecurityErr \<lparr>message = ''Input validation failed'', code = INVALID_INPUT,
            details = Some (ValidationDetails
              [ZodIssue ''invalid_type'' [Key ''action''] ''Required'']
              (JObj [(''resource'', JStr ''docs''), (''scope'', JStr ''own'')]))\<rparr>) \<and>
   validate (JObj [(''scope'', JStr ''own''), (''extra'', JNum 1), (''action'', JStr ''read''),
                   (''resource'', JStr ''docs'')])
       (zod_parse PermissionSchema) =
     Inr (JObj [(''resource'', JStr ''docs''), (''action'', JStr ''read''),
                (''scope'', JStr ''own'')]) \<and>
   validate exampleDocument (zod_parse (DocumentContentSchema exampleUuid)) =
     Inr exampleDocumentValidated \<and>
   validate exampleUserData (zod_parse (UserSchema exampleUuid exampleEmail)) =
     Inl (SecurityErr \<lparr>message = ''Input validation failed'', code = INVALID_INPUT,
            details = Some (ValidationDetails
              [ZodIssue ''invalid_string'' [Key ''email''] ''Invalid email'',
               ZodIssue ''too_small'' [Key ''permissions'', Index 1, Key ''resource'']
                 ''String must contain at least 1 character(s)'',
               ZodIssue ''invalid_type'' [Key ''permissions'', Index 1, Key ''action'']
                 ''Required'']
              exampleUserData)\<rparr>)"
proof -
  have absent: "\<not> has_property [(''resource'', JStr ''docs''), (''scope'', JStr ''own'')] ''action''"
    by (simp add: has_property_def)
  have missing: "validate (JObj [(''resource'', JStr ''docs''), (''scope'', JStr ''own'')])
       (zod_parse PermissionSchema) =
     Inl (SecurityErr \<lparr>message = ''Input validation failed'', code = INVALID_INPUT,
            details = Some (ValidationDetails
              [ZodIssue ''invalid_type'' [Key ''action''] ''Required'']
              (JObj [(''resource'', JStr ''docs''), (''scope'', JStr ''own'')]))\<rparr>)"
    by code_simp
  have present: "validate (JObj [(''scope'', JStr ''own''), (''extra'', JNum 1),
                   (''action'', JStr ''read''), (''resource'', JStr ''docs'')])
       (zod_parse PermissionSchema) =
     Inr (JObj [(''resource'', JStr ''docs''), (''action'', JStr ''read''),
                (''scope'', JStr ''own'')])"
    by code_simp
  note doc_ok = exampleDocument_valid
  have nested: "validate exampleUserData (zod_parse (UserSchema exampleUuid exampleEmail)) =
     Inl (SecurityErr \<lparr>message = ''Input validation failed'', code = INVALID_INPUT,
            details = Some (ValidationDetails
              [ZodIssue ''invalid_string'' [Key ''email''] ''Invalid email'',
               ZodIssue ''too_small'' [Key ''permissions'', Index 1, Key ''resource'']
                 ''String must contain at least 1 character(s)'',
               ZodIssue ''invalid_type'' [Key ''permissions'', Index 1, Key ''action'']
                 ''Required'']
              exampleUserData)\<rparr>)"
    by code_simp
  from validate_outcomes [of "zod_parse PermissionSchema"
      "JObj [(''resource'', JStr ''docs''), (''scope'', JStr ''own'')]"]
    absent missing present doc_ok nested
  show ?thesis
    by - (intro conjI; assumption)
qed

section \<open>The authorization gate\<close>

lemma gate_unfold:
  assumes "gate = SecureComponent_validateAndAuthorize \<or> gate = useSecureData_validateAndAuthorize"
  shows "gate domPurify user requiredPermissions data validationSchema =
     (if requiredPermissions \<noteq> [] \<and> \<not> hasAnyPermission user requiredPermissions then
        (Denied \<lparr>message = ''Insufficient permissions'', code = PERMISSION_DENIED,
                 details = Some (GateDetails requiredPermissions (id' user))\<rparr>, [])
      else
        (case (if truthy data then validationSchema else None) of
           None \<Rightarrow> (Authorized JUndefined, [])
         | Some schema \<Rightarrow>
             (case validateAndSanitize domPurify data schema of
                Inr validated \<Rightarrow> (Authorized validated, [data])
              | Inl (SecurityErr e) \<Rightarrow> (Denied e, [data])
              | Inl (OtherError _) \<Rightarrow>
                  (Denied \<lparr>message = ''Unknown security error'', code = INVALID_INPUT,
                           details = None\<rparr>, [data]))))"
  using assms
  by (auto simp: SecureComponent_validateAndAuthorize_def useSecureData_validateAndAuthorize_def
      catchError_def Authorized_def Denied_def split: option.splits sum.splits thrown.splits)

text \<open>
  Claim C4, as stated, fails: when \<open>validateAndSanitize\<close> fails with an error that is
  not a \<open>SecurityError\<close>, the gate ends denied with a new \<open>Unknown security error\<close>,
  not with the error of the pipeline.
\<close>

theorem gate_replaces_error_counterexample:
  "truthy (JStr ''x'') \<and>
   validateAndSanitize exampleDOM (JStr ''x'') throwingSchema =
     Inl (OtherError ''Async refinement encountered during synchronous parse operation'') \<and>
   SecureComponent_validateAndAuthorize exampleDOM (exampleUser True []) [] (JStr ''x'')
       (Some throwingSchema) =
     (Denied \<lparr>message = ''Unknown security error'', code = INVALID_INPUT, details = None\<rparr>,
      [JStr ''x''])"
  by (simp add: SecureComponent_validateAndAuthorize_def validateAndSanitize_def validate_def
      throwingSchema_def catchError_def Denied_def)

text \<open>
  Claim C4, amended. For both gates (\<open>SecureComponent\<close> and \<open>useSecureData\<close>), every
  user, required-permission list, data and optional schema:
  \<^item> if the list is not empty and \<open>hasAnyPermission\<close> fails, the gate ends \<open>Denied\<close> with
    the \<open>PERMISSION_DENIED\<close> error and \<open>validateAndSanitize\<close> is never called;
  \<^item> if the list is empty, no permission check can fail: the outcome is the same for
    every user, and the gate is never denied before it has called
    \<open>validateAndSanitize\<close>;
  \<^item> if the permission check passes, the data is truthy and a schema was given, then
    \<open>validateAndSanitize\<close> is called once on the data, and the gate ends \<open>Denied\<close> with
    the pipeline's \<open>SecurityError\<close> when it fails with one, \<open>Denied\<close> with a new
    \<open>Unknown security error\<close> of code \<open>INVALID_INPUT\<close> when it fails with any other
    error, and \<open>Authorized\<close> with the validated and sanitized data when it returns;
  \<^item> if the permission check passes and no data (\<open>undefined\<close>) or no schema was given,
    the gate ends \<open>Authorized\<close> with undefined data and \<open>validateAndSanitize\<close> is never
    called.
\<close>

theorem authorization_gate:
  assumes "gate = SecureComponent_validateAndAuthorize \<or> gate = useSecureData_validateAndAuthorize"
  shows "(requiredPermissions \<noteq> [] \<and> \<not> hasAnyPermission user requiredPermissions \<longrightarrow>
            gate domPurify user requiredPermissions data validationSchema =
              (Denied \<lparr>message = ''Insufficient permissions'', code = PERMISSION_DENIED,
                       details = Some (GateDetails requiredPermissions (id' user))\<rparr>, [])) \<and>
         (requiredPermissions = [] \<longrightarrow>
            (\<forall>other. gate domPurify other requiredPermissions data validationSchema =
                      gate domPurify user requiredPermissions data validationSchema) \<and>
            (\<forall>e. gate domPurify user requiredPermissions data validationSchema \<noteq>
                  (Denied e, []))) \<and>
         ((requiredPermissions = [] \<or> hasAnyPermission user requiredPermissions) \<and>
          truthy data \<and> validationSchema = Some schema \<longrightarrow>
            (\<forall>e. validateAndSanitize domPurify data schema = Inl (SecurityErr e) \<longrightarrow>
               gate domPurify user requiredPermissions data validationSchema = (Denied e, [data])) \<and>
            (\<forall>other. validateAndSanitize domPurify data schema = Inl (OtherError other) \<longrightarrow>
               gate domPurify user requiredPermissions data validationSchema =
                 (Denied \<lparr>message = ''Unknown security error'', code = INVALID_INPUT,
                          details = None\<rparr>, [data])) \<and>
            (\<forall>validated. validateAndSanitize domPurify data schema = Inr validated \<longrightarrow>
               gate domPurify user requiredPermissions data validationSchema =
                 (Authorized validated, [data]))) \<and>
         ((requiredPermissions = [] \<or> hasAnyPermission user requiredPermissions) \<and>
          (data = JUndefined \<or> validationSchema = None) \<longrightarrow>
            gate domPurify user requiredPermissions data validationSchema =
              (Authorized JUndefined, []))"
proof (intro conjI impI allI)
  assume "requiredPermissions \<noteq> [] \<and> \<not> hasAnyPermission user requiredPermissions"
  then show "gate domPurify user requiredPermissions data validationSchema =
      (Denied \<lparr>message = ''Insufficient permissions'', code = PERMISSION_DENIED,
               details = Some (GateDetails requiredPermissions (id' user))\<rparr>, [])"
    by (simp add: gate_unfold [OF assms])
next
  fix other
  assume "requiredPermissions = []"
  then show "gate domPurify other requiredPermissions data validationSchema =
      gate domPurify user requiredPermissions data validationSchema"
    by (simp add: gate_unfold [OF assms])
next
  fix e
  assume "requiredPermissions = []"
  then show "gate domPurify user requiredPermissions data validationSchema \<noteq> (Denied e, [])"
    by (auto simp: gate_unfold [OF assms] Authorized_def Denied_def
        split: option.splits sum.splits thrown.splits if_splits)
next
  fix e
  assume "(requiredPermissions = [] \<or> hasAnyPermission user requiredPermissions) \<and>
      truthy data \<and> validationSchema = Some schema"
    and "validateAndSanitize domPurify data schema = Inl (SecurityErr e)"
  then show "gate domPurify user requiredPermissions data validationSchema = (Denied e, [data])"
    by (auto simp: gate_unfold [OF assms] hasAnyPermission_def)
next
  fix other
  assume "(requiredPermissions = [] \<or> hasAnyPermission user requiredPermissions) \<and>
      truthy data \<and> validationSchema = Some schema"
    and "validateAndSanitize domPurify data schema = Inl (OtherError other)"
  then show "gate domPurify user requiredPermissions data validationSchema =
      (Denied \<lparr>message = ''Unknown security error'', code = INVALID_INPUT, details = None\<rparr>,
       [data])"
    by (auto simp: gate_unfold [OF assms] hasAnyPermission_def)
next
  fix validated
  assume "(requiredPermissions = [] \<or> hasAnyPermission user requiredPermissions) \<and>
      truthy data \<and> validationSchema = Some schema"
    and "validateAndSanitize domPurify data schema = Inr validated"
  then show "gate domPurify user requiredPermissions data validationSchema =
      (Authorized validated, [data])"
    by (auto simp: gate_unfold [OF assms] hasAnyPermission_def)
next
  assume "(requiredPermissions = [] \<or> hasAnyPermission user requiredPermissions) \<and>
      (data = JUndefined \<or> validationSchema = None)"
  then show "gate domPurify user requiredPermissions data validationSchema =
      (Authorized JUndefined, [])"
    by (auto simp: gate_unfold [OF assms] hasAnyPermission_def)
qed

theorem authorization_gate_witness:
  "SecureComponent_validateAndAuthorize exampleDOM (exampleUser True [docsUpdate (Some Own)])
       [docsUpdate (Some Global)] exampleDocument
       (Some (zod_parse (DocumentContentSchema exampleUuid))) =
     (Denied \<lparr>message = ''Insufficient permissions'', code = PERMISSION_DENIED,
              details = Some (GateDetails [docsUpdate (Some Global)] ''user-1'')\<rparr>, []) \<and>
   useSecureData_validateAndAuthorize exampleDOM (exampleUser True [docsUpdate (Some Global)])
       [docsUpdate (Some Own)] exampleDocument
       (Some (zod_parse (DocumentContentSchema exampleUuid))) =
     (Authorized exampleDocumentSanitized, [exampleDocument]) \<and>
   SecureComponent_validateAndAuthorize Unsupported (exampleUser False []) []
       exampleDocument (Some (zod_parse (DocumentContentSchema exampleUuid))) =
     (Denied \<lparr>message = ''HTML sanitization failed'', code = INVALID_INPUT,
              details = Some (SanitizeDetails ''<p onclick=x()>hi</p>...'')\<rparr>,
      [exampleDocument]) \<and>
   useSecureData_validateAndAuthorize exampleDOM (exampleUser False []) []
       exampleDocument (Some denyingSchema) =
     (Denied \<lparr>message = ''Not for you'', code = PERMISSION_DENIED, details = None\<rparr>,
      [exampleDocument]) \<and>
   useSecureData_validateAndAuthorize exampleDOM (exampleUser False []) []
       exampleDocument None =
     (Authorized JUndefined, [])"
proof -
  let ?schema = "zod_parse (DocumentContentSchema exampleUuid)"
  have lacks: "\<not> hasAnyPermission (exampleUser True [docsUpdate (Some Own)])
      [docsUpdate (Some Global)]"
    by (simp add: hasAnyPermission_def hasPermission_iff permissionsMatch_typed
        exampleUser_def docsUpdate_def)
  have holds: "hasAnyPermission (exampleUser True [docsUpdate (Some Global)])
      [docsUpdate (Some Own)]"
    by (simp add: hasAnyPermission_def hasPermission_iff permissionsMatch_typed
        exampleUser_def docsUpdate_def)
  note run = exampleDocument_sanitized
  note fails = exampleDocument_unsupported
  have thrown: "validateAndSanitize exampleDOM exampleDocument denyingSchema =
      Inl (SecurityErr \<lparr>message = ''Not for you'', code = PERMISSION_DENIED, details = None\<rparr>)"
    by (simp add: validateAndSanitize_def validate_def denyingSchema_def)
  have obj: "truthy exampleDocument"
    by (simp add: exampleDocument_def)
  have denied: "SecureComponent_validateAndAuthorize exampleDOM
       (exampleUser True [docsUpdate (Some Own)])
       [docsUpdate (Some Global)] exampleDocument (Some ?schema) =
     (Denied \<lparr>message = ''Insufficient permissions'', code = PERMISSION_DENIED,
              details = Some (GateDetails [docsUpdate (Some Global)] ''user-1'')\<rparr>, [])"
    using authorization_gate [where gate = SecureComponent_validateAndAuthorize
        and requiredPermissions = "[docsUpdate (Some Global)]"
        and user = "exampleUser True [docsUpdate (Some Own)]"
        and domPurify = exampleDOM and data = exampleDocument
        and validationSchema = "Some ?schema" and schema = ?schema, THEN conjunct1]
      lacks
    by (simp add: exampleUser_def)
  have authorized: "useSecureData_validateAndAuthorize exampleDOM
       (exampleUser True [docsUpdate (Some Global)])
       [docsUpdate (Some Own)] exampleDocument (Some ?schema) =
     (Authorized exampleDocumentSanitized, [exampleDocument])"
    using authorization_gate [where gate = useSecureData_validateAndAuthorize
        and requiredPermissions = "[docsUpdate (Some Own)]"
        and user = "exampleUser True [docsUpdate (Some Global)]"
        and domPurify = exampleDOM and data = exampleDocument
        and validationSchema = "Some ?schema" and schema = ?schema,
        THEN conjunct2, THEN conjunct2, THEN conjunct1]
      holds run obj
    by simp
  have pipeline: "SecureComponent_validateAndAuthorize Unsupported (exampleUser False []) []
       exampleDocument (Some ?schema) =
     (Denied \<lparr>message = ''HTML sanitization failed'', code = INVALID_INPUT,
              details = Some (SanitizeDetails ''<p onclick=x()>hi</p>...'')\<rparr>,
      [exampleDocument])"
    using authorization_gate [where gate = SecureComponent_validateAndAuthorize
        and requiredPermissions = "[]"
        and user = "exampleUser False []"
        and domPurify = Unsupported and data = exampleDocument
        and validationSchema = "Some ?schema" and schema = ?schema,
        THEN conjunct2, THEN conjunct2, THEN conjunct1]
      fails obj
    by simp
  have rethrown: "useSecureData_validateAndAuthorize exampleDOM (exampleUser False []) []
       exampleDocument (Some denyingSchema) =
     (Denied \<lparr>message = ''Not for you'', code = PERMISSION_DENIED, details = None\<rparr>,
      [exampleDocument])"
    using authorization_gate [where gate = useSecureData_validateAndAuthorize
        and requiredPermissions = "[]"
        and user = "exampleUser False []"
        and domPurify = exampleDOM and data = exampleDocument
        and validationSchema = "Some denyingSchema" and schema = denyingSchema,
        THEN conjunct2, THEN conjunct2, THEN conjunct1]
      thrown obj
    by simp
  have trivial: "useSecureData_validateAndAuthorize exampleDOM (exampleUser False []) []
       exampleDocument None =
     (Authorized JUndefined, [])"
    using authorization_gate [where gate = useSecureData_validateAndAuthorize
        and requiredPermissions = "[]"
        and user = "exampleUser False []"
        and domPurify = exampleDOM and data = exampleDocument
        and validationSchema = None and schema = passSchema,
        THEN conjunct2, THEN conjunct2, THEN conjunct2]
    by simp
  from denied authorized pipeline rethrown trivial show ?thesis
    by blast
qed

text \<open>
  Claim C10. The gate calls \<open>validateAndSanitize\<close> only when the data is truthy. For
  both gates and every falsy data value (the empty string, 0, false and null are falsy)
  supplied with a schema, whatever the schema would do with it: when the permission check
  passes, the gate ends \<open>Authorized\<close> with undefined validated data and
  \<open>validateAndSanitize\<close> is never called.
\<close>

theorem falsy_data_skips_validation:
  assumes "gate = SecureComponent_validateAndAuthorize \<or> gate = useSecureData_validateAndAuthorize"
      and "\<not> truthy data"
      and "requiredPermissions = [] \<or> hasAnyPermission user requiredPermissions"
  shows "gate domPurify user requiredPermissions data (Some schema) =
           (Authorized JUndefined, []) \<and>
         \<not> truthy (JStr []) \<and> \<not> truthy (JNum 0) \<and> \<not> truthy (JBool False) \<and> \<not> truthy JNull"
  using assms(2,3) by (auto simp: gate_unfold [OF assms(1)] hasAnyPermission_def)

theorem falsy_data_skips_validation_witness:
  "\<not> truthy (JNum 0) \<and>
   hasAnyPermission (exampleUser True [docsUpdate (Some Global)]) [docsUpdate (Some Own)] \<and>
   validateAndSanitize exampleDOM (JNum 0) nonEmptyStringSchema =
     Inl (SecurityErr \<lparr>message = ''Input validation failed'', code = INVALID_INPUT,
            details = Some (ValidationDetails
              [ZodIssue ''invalid_type'' [] ''Expected string, received number''] (JNum 0))\<rparr>) \<and>
   SecureComponent_validateAndAuthorize exampleDOM
       (exampleUser True [docsUpdate (Some Global)]) [docsUpdate (Some Own)] (JNum 0)
       (Some nonEmptyStringSchema) =
     (Authorized JUndefined, []) \<and>
   useSecureData_validateAndAuthorize exampleDOM (exampleUser True []) [] JNull
       (Some nonEmptyStringSchema) =
     (Authorized JUndefined, [])"
proof -
  have holds: "hasAnyPermission (exampleUser True [docsUpdate (Some Global)])
      [docsUpdate (Some Own)]"
    by (simp add: hasAnyPermission_def hasPermission_iff permissionsMatch_typed
        exampleUser_def docsUpdate_def)
  have rejects: "validateAndSanitize exampleDOM (JNum 0) nonEmptyStringSchema =
     Inl (SecurityErr \<lparr>message = ''Input validation failed'', code = INVALID_INPUT,
            details = Some (ValidationDetails
              [ZodIssue ''invalid_type'' [] ''Expected string, received number''] (JNum 0))\<rparr>)"
    by code_simp
  have zero: "SecureComponent_validateAndAuthorize exampleDOM
       (exampleUser True [docsUpdate (Some Global)]) [docsUpdate (Some Own)] (JNum 0)
       (Some nonEmptyStringSchema) =
     (Authorized JUndefined, [])"
    using falsy_data_skips_validation [where gate = SecureComponent_validateAndAuthorize
        and data = "JNum 0" and requiredPermissions = "[docsUpdate (Some Own)]"
        and user = "exampleUser True [docsUpdate (Some Global)]"
        and domPurify = exampleDOM and schema = nonEmptyStringSchema]
      holds
    by simp
  have null: "useSecureData_validateAndAuthorize exampleDOM (exampleUser True []) [] JNull
       (Some nonEmptyStringSchema) =
     (Authorized JUndefined, [])"
    using falsy_data_skips_validation [where gate = useSecureData_validateAndAuthorize
        and data = JNull and requiredPermissions = "[]"
        and user = "exampleUser True []"
        and domPurify = exampleDOM and schema = nonEmptyStringSchema]
    by simp
  from holds rejects zero null show ?thesis
    by simp
qed

section \<open>Further properties of the permission service\<close>

text \<open>
  \<open>filterByPermissions\<close> never returns more items than it was given, and
  an active user who holds the requirement at global scope receives every item.
\<close>

theorem filterByPermissions_bounds:
  "length (filterByPermissions user items required) \<le> length items \<and>
   (isActive user \<and>
    \<lparr>resource = resource required, action = action required, scope = Some Global\<rparr>
      \<in> set (permissions user) \<longrightarrow>
    filterByPermissions user items required = items)"
proof -
  let ?g = "\<lparr>resource = resource required, action = action required, scope = Some Global\<rparr>"
  have "hasPermission user ?g" if "isActive user" "?g \<in> set (permissions user)"
  proof -
    have "permissionsMatch ?g ?g"
      by (simp add: permissionsMatch_typed)
    with that show ?thesis
      unfolding hasPermission_iff by blast
  qed
  then show ?thesis
    by (auto simp: filterByPermissions_def Let_def)
qed

theorem filterByPermissions_bounds_witness:
  "filterByPermissions (exampleUser True [docsUpdate (Some Own), docsUpdate (Some Global)])
       [1, 2, 3, 4, 5, 6, 7, 8, 9, 10 :: nat] \<lparr>resource = ''docs'', action = Update\<rparr> =
     [1, 2, 3, 4, 5, 6, 7, 8, 9, 10]"
  using filterByPermissions_bounds
      [of "exampleUser True [docsUpdate (Some Own), docsUpdate (Some Global)]"
          "[1, 2, 3, 4, 5, 6, 7, 8, 9, 10 :: nat]" "\<lparr>resource = ''docs'', action = Update\<rparr>",
       THEN conjunct2]
  by (simp add: exampleUser_def docsUpdate_def)

text \<open>
  An inactive user has no effective permission: whatever its permission
  list holds, \<open>hasAnyPermission\<close> and \<open>isGlobalAdmin\<close> are false, \<open>filterByPermissions\<close>
  returns no item, and \<open>requirePermission\<close> fails with \<open>PERMISSION_DENIED\<close>.
\<close>

theorem inactive_user_is_refused:
  assumes "\<not> isActive user"
  shows "\<not> hasAnyPermission user perms \<and> \<not> isGlobalAdmin user \<and>
         filterByPermissions user items required = [] \<and>
         (\<exists>e. requirePermission user permission res = Inl e \<and> code e = PERMISSION_DENIED)"
proof -
  have no: "\<not> hasPermission user p" for p
    using assms by (simp add: hasPermission_def)
  then show ?thesis
    by (simp add: hasAnyPermission_def list_ex_iff isGlobalAdmin_def filterByPermissions_def
        requirePermission_def)
qed

theorem inactive_user_is_refused_witness:
  "\<not> hasAnyPermission (exampleUser False [adminPermission]) [adminPermission] \<and>
   \<not> isGlobalAdmin (exampleUser False [adminPermission]) \<and>
   filterByPermissions (exampleUser False [adminPermission]) [''item-1'']
     \<lparr>resource = ''*'', action = Configure\<rparr> = []"
  using inactive_user_is_refused
      [of "exampleUser False [adminPermission]" "[adminPermission]" "[''item-1'']"
          "\<lparr>resource = ''*'', action = Configure\<rparr>"]
  by (simp add: exampleUser_def)

text \<open>
  \<open>requirePermission\<close> succeeds exactly when \<open>hasPermission\<close> holds;
  otherwise it fails with the \<open>SecurityError\<close> of code \<open>PERMISSION_DENIED\<close> whose
  message names the action and the resource and whose details are the user's id, the
  required permission and the resource identifier passed in.
\<close>

theorem requirePermission_outcome:
  "(requirePermission user permission res = Inr () \<longleftrightarrow> hasPermission user permission) \<and>
   (\<not> hasPermission user permission \<longrightarrow>
      requirePermission user permission res =
        Inl \<lparr>message = ''Permission denied: '' @ action_string (action permission) @
                 '' on '' @ resource permission,
             code = PERMISSION_DENIED,
             details = Some (RequireDetails (id' user) permission res)\<rparr>)"
  by (simp add: requirePermission_def)

theorem requirePermission_outcome_witness:
  "requirePermission (exampleUser True [docsUpdate (Some Own)]) (docsUpdate (Some Project))
       (Some ''doc-1'') =
     Inl \<lparr>message = ''Permission denied: update on docs'', code = PERMISSION_DENIED,
          details = Some (RequireDetails ''user-1'' (docsUpdate (Some Project))
                            (Some ''doc-1''))\<rparr>"
proof -
  have "\<not> hasPermission (exampleUser True [docsUpdate (Some Own)]) (docsUpdate (Some Project))"
    by (simp add: hasPermission_iff permissionsMatch_typed exampleUser_def docsUpdate_def)
  then show ?thesis
    using requirePermission_outcome
        [of "exampleUser True [docsUpdate (Some Own)]" "docsUpdate (Some Project)"
            "Some ''doc-1''", THEN conjunct2]
    by (simp add: exampleUser_def docsUpdate_def)
qed

text \<open>
  \<open>hasAnyPermission\<close> is false on the empty list for every user; that an
  empty list of required permissions means no restriction is decided by the callers:
  \<open>PermissionGuard\<close> and both gates test the length of the list first.
\<close>

theorem empty_requirement_list:
  "\<not> hasAnyPermission user [] \<and> PermissionGuard user [] \<and>
   fst (SecureComponent_validateAndAuthorize domPurify user [] JUndefined None) =
     Authorized JUndefined \<and>
   fst (useSecureData_validateAndAuthorize domPurify user [] JUndefined None) =
     Authorized JUndefined"
  by (simp add: hasAnyPermission_def PermissionGuard_def
      SecureComponent_validateAndAuthorize_def useSecureData_validateAndAuthorize_def
      Authorized_def)

text \<open>
  \<open>getPermissionsForResource\<close> returns, in the order of the user's list,
  exactly the permissions granted on that resource string, whether or not the user is
  active.
\<close>

theorem getPermissionsForResource_exact:
  "set (getPermissionsForResource user res) =
     {p. p \<in> set (permissions user) \<and> resource p = res} \<and>
   getPermissionsForResource user res = filter (\<lambda>p. resource p = res) (permissions user) \<and>
   getPermissionsForResource (user\<lparr>isActive := False\<rparr>) res = getPermissionsForResource user res"
  by (auto simp: getPermissionsForResource_def)

section \<open>Further properties of the sanitizer\<close>

text \<open>
  The pass of \<open>DOMPurify.sanitize\<close> over the nodes is idempotent: nodes that came out of
  it pass through it unchanged.
\<close>

lemma sanitize_node_idempotent:
  "concat (map (sanitize_node cfg) (sanitize_node cfg n)) = sanitize_node cfg n"
proof (induction cfg n rule: sanitize_node.induct)
  case (1 cfg tag attrs children)
  have kids: "concat (map (sanitize_node cfg) (concat (map (sanitize_node cfg) children))) =
      concat (map (sanitize_node cfg) children)"
    if "\<And>c. c \<in> set children \<Longrightarrow>
          concat (map (sanitize_node cfg) (sanitize_node cfg c)) = sanitize_node cfg c"
    using that by (induction children) simp_all
  show ?case
  proof (cases "allowed_tag cfg tag")
    case True
    with 1(1) [OF True] kids show ?thesis by simp
  next
    case False
    with 1(2) [OF False] kids show ?thesis by simp
  qed
qed simp_all

theorem sanitize_nodes_idempotent:
  "sanitize_nodes cfg (sanitize_nodes cfg nodes) = sanitize_nodes cfg nodes"
  unfolding sanitize_nodes_def
  by (induction nodes) (simp_all add: sanitize_node_idempotent)

text \<open>
  On a string \<open>x\<close>, \<open>sanitizeHtml\<close> applied twice gives what it gives applied once
  whenever the browser's parser reads the serialized form of the sanitized nodes of \<open>x\<close>
  back as those nodes. Whether a browser does so for every string is a property of its
  parser and serializer, which are not part of this development.
\<close>

theorem sanitizeHtml_round_trip:
  assumes "parseHTML (serializeHTML (sanitize_nodes config (parseHTML x))) =
             sanitize_nodes config (parseHTML x)"
  shows "\<exists>once. sanitizeHtml (Supported parseHTML serializeHTML) x = Inr once \<and>
           sanitizeHtml (Supported parseHTML serializeHTML) once = Inr once"
  using assms by (simp add: sanitizeHtml_def sanitize_nodes_idempotent)

theorem sanitizeHtml_round_trip_witness:
  "exampleParse (exampleSerialize (sanitize_nodes config (exampleParse ''<p onclick=x()>hi</p>''))) =
     sanitize_nodes config (exampleParse ''<p onclick=x()>hi</p>'') \<and>
   sanitizeHtml (Supported exampleParse exampleSerialize) ''<p onclick=x()>hi</p>'' =
     Inr ''<p>hi</p>'' \<and>
   sanitizeHtml (Supported exampleParse exampleSerialize) ''<p>hi</p>'' = Inr ''<p>hi</p>''"
proof -
  have reread: "exampleParse (exampleSerialize
        (sanitize_nodes config (exampleParse ''<p onclick=x()>hi</p>''))) =
      sanitize_nodes config (exampleParse ''<p onclick=x()>hi</p>'')"
    by code_simp
  have once: "sanitizeHtml (Supported exampleParse exampleSerialize) ''<p onclick=x()>hi</p>'' =
      Inr ''<p>hi</p>''"
    by code_simp
  from sanitizeHtml_round_trip
      [of exampleParse exampleSerialize "''<p onclick=x()>hi</p>''", OF reread] once
  have twice: "sanitizeHtml (Supported exampleParse exampleSerialize) ''<p>hi</p>'' =
      Inr ''<p>hi</p>''"
    by simp
  from reread once twice show ?thesis
    by - (intro conjI; assumption)
qed

end
